theory Spec2Isabelle
  imports Main "HOL-Library.Word"
begin

section \<open>The authorize evaluator of pomerium (authorize/evaluator)\<close>

text \<open>
  A shallow embedding of \<^verbatim>\<open>authorize/evaluator/evaluator.go\<close> and
  \<^verbatim>\<open>authorize/evaluator/config.go\<close>. Go's \<^verbatim>\<open>string\<close> and \<^verbatim>\<open>[]byte\<close> are both
  byte sequences and are both modelled by \<^typ>\<open>string\<close>; a \<^verbatim>\<open>(T, error)\<close> return is a
  value of a sum type, with \<open>Inl\<close> the error; \<^verbatim>\<open>uint64\<close> is a 64-bit word.
  Pointers returned together with a nil error are taken to be non-nil, and a header map
  returned by the headers evaluator is taken to be allocated.
\<close>

subsection \<open>Errors\<close>

text \<open>
  \<^verbatim>\<open>fmt.Errorf(prefix + "%w", err)\<close> wraps an error and keeps it; \<^verbatim>\<open>fmt.Errorf("%v", e)\<close>
  makes a new error from the rendering of a recovered panic value.
\<close>

datatype error =
    ErrorString string
  | Errorf_w string error
  | Errorf_v string

type_synonym uint64 = "64 word"

subsection \<open>Request and result types\<close>

record ClientCertificateInfo =
  Presented :: bool
  Leaf :: string
  Intermediates :: string

record RequestSession =
  ID :: string

record RequestHTTP =
  Method :: string
  Hostname :: string
  Path :: string
  URL :: string
  Headers :: "string \<rightharpoonup> string"
  ClientCertificate :: ClientCertificateInfo
  IP :: string

text \<open>
  \<^verbatim>\<open>config.Policy\<close> is declared outside the evaluator package. The evaluator reads one
  field of it; every other field lives in the extension part of the record scheme.
\<close>

record config_Policy =
  TLSDownstreamClientCA :: string

record 'p Request =
  IsInternal :: bool
  Policy :: "'p config_Policy_scheme option"
  HTTP :: RequestHTTP
  Session :: RequestSession

text \<open>
  Modelled from the spec: the reason codes of package \<^verbatim>\<open>criteria\<close> (UserUnauthenticated,
  InvalidClientCertificate, RouteNotFound, PomeriumRoute, plus the reasons of user-authored
  rules), whose declaration is not part of the evaluator package.
\<close>

datatype Reason =
    ReasonUserUnauthenticated
  | ReasonInvalidClientCertificate
  | ReasonRouteNotFound
  | ReasonPomeriumRoute
  | ReasonOther string

text \<open>
  Modelled from the spec: \<^verbatim>\<open>RuleResult\<close> is a boolean verdict plus its ordered reason codes,
  and \<^verbatim>\<open>NewRuleResult(value, reasons...)\<close> builds one. A field of this type that a struct
  literal leaves out holds Go's zero value, \<open>RuleResult_unset\<close>.
\<close>

record RuleResult =
  Value :: bool
  Reasons :: "Reason list"

definition NewRuleResult :: "bool \<Rightarrow> Reason list \<Rightarrow> RuleResult" where
  "NewRuleResult v rs = \<lparr>Value = v, Reasons = rs\<rparr>"

definition RuleResult_unset :: RuleResult where
  "RuleResult_unset = \<lparr>Value = False, Reasons = []\<rparr>"

text \<open>
  The input and output of a \<^verbatim>\<open>PolicyEvaluator\<close> and of the \<^verbatim>\<open>HeadersEvaluator\<close>, with the
  fields that \<^verbatim>\<open>evaluator.go\<close> reads and writes. A trace record is opaque (\<open>'t\<close>);
  \<^verbatim>\<open>http.Header\<close> maps a key to the list of its values.
\<close>

record PolicyRequest =
  HTTP :: RequestHTTP
  Session :: RequestSession
  IsValidClientCertificate :: bool

record 't PolicyResponse =
  Allow :: RuleResult
  Deny :: RuleResult
  Traces :: "'t list"

type_synonym http_Header = "string \<rightharpoonup> string list"

record HeadersRequest =
  Session :: RequestSession

record HeadersResponse =
  Headers :: http_Header

record 't Result =
  Allow :: RuleResult
  Deny :: RuleResult
  Headers :: http_Header
  Traces :: "'t list"

subsection \<open>The evaluator's configuration (config.go)\<close>

text \<open>
  \<^verbatim>\<open>ClientCertConstraints\<close> (\<open>'c\<close>) and \<^verbatim>\<open>config.JWTClaimHeaders\<close> (\<open>'j\<close>) are declared
  elsewhere and stay opaque. \<^verbatim>\<open>new(evaluatorConfig)\<close> is the zero value of the struct, which
  needs the zero values of these two types.
\<close>

record ('p, 'c, 'j) evaluatorConfig =
  policies :: "'p config_Policy_scheme list"
  clientCA :: string
  clientCRL :: string
  addDefaultClientCertificateRule :: bool
  clientCertConstraints :: 'c
  signingKey :: string
  authenticateURL :: string
  googleCloudServerlessAuthenticationServiceAccount :: string
  jwtClaimsHeaders :: 'j

type_synonym ('p, 'c, 'j) Option =
  "('p, 'c, 'j) evaluatorConfig \<Rightarrow> ('p, 'c, 'j) evaluatorConfig"

definition evaluatorConfig_zero :: "'c \<Rightarrow> 'j \<Rightarrow> ('p, 'c, 'j) evaluatorConfig" where
  "evaluatorConfig_zero c0 j0 =
     \<lparr>policies = [], clientCA = [], clientCRL = [], addDefaultClientCertificateRule = False,
      clientCertConstraints = c0, signingKey = [], authenticateURL = [],
      googleCloudServerlessAuthenticationServiceAccount = [], jwtClaimsHeaders = j0\<rparr>"

definition getConfig :: "'c \<Rightarrow> 'j \<Rightarrow> ('p, 'c, 'j) Option list \<Rightarrow> ('p, 'c, 'j) evaluatorConfig" where
  "getConfig c0 j0 options = foldl (\<lambda>cfg opt. opt cfg) (evaluatorConfig_zero c0 j0) options"

definition WithPolicies :: "'p config_Policy_scheme list \<Rightarrow> ('p, 'c, 'j) Option" where
  "WithPolicies ps cfg = cfg\<lparr>policies := ps\<rparr>"

definition WithClientCA :: "string \<Rightarrow> ('p, 'c, 'j) Option" where
  "WithClientCA ca cfg = cfg\<lparr>clientCA := ca\<rparr>"

definition WithClientCRL :: "string \<Rightarrow> ('p, 'c, 'j) Option" where
  "WithClientCRL crl cfg = cfg\<lparr>clientCRL := crl\<rparr>"

definition WithAddDefaultClientCertificateRule :: "bool \<Rightarrow> ('p, 'c, 'j) Option" where
  "WithAddDefaultClientCertificateRule b cfg = cfg\<lparr>addDefaultClientCertificateRule := b\<rparr>"

definition WithClientCertConstraints :: "'c \<Rightarrow> ('p, 'c, 'j) Option" where
  "WithClientCertConstraints constraints cfg = cfg\<lparr>clientCertConstraints := constraints\<rparr>"

definition WithSigningKey :: "string \<Rightarrow> ('p, 'c, 'j) Option" where
  "WithSigningKey k cfg = cfg\<lparr>signingKey := k\<rparr>"

definition WithAuthenticateURL :: "string \<Rightarrow> ('p, 'c, 'j) Option" where
  "WithAuthenticateURL u cfg = cfg\<lparr>authenticateURL := u\<rparr>"

definition WithGoogleCloudServerlessAuthenticationServiceAccount ::
  "string \<Rightarrow> ('p, 'c, 'j) Option"
where
  "WithGoogleCloudServerlessAuthenticationServiceAccount serviceAccount cfg =
     cfg\<lparr>googleCloudServerlessAuthenticationServiceAccount := serviceAccount\<rparr>"

definition WithJWTClaimsHeaders :: "'j \<Rightarrow> ('p, 'c, 'j) Option" where
  "WithJWTClaimsHeaders headers cfg = cfg\<lparr>jwtClaimsHeaders := headers\<rparr>"

text \<open>
  An evaluator component is modelled by its \<^verbatim>\<open>Evaluate\<close> method: what it returns for a
  request when its context is not cancelled.
\<close>

type_synonym 't PolicyEvaluator = "PolicyRequest \<Rightarrow> error + 't PolicyResponse"

type_synonym 'h HeadersEvaluator = "'h HeadersRequest_scheme \<Rightarrow> error + HeadersResponse"

text \<open>
  The \<^verbatim>\<open>Evaluator\<close> struct. Its \<^verbatim>\<open>store\<close> field is a pointer to the shared store; the
  store's contents are passed explicitly to the functions that update it.
\<close>

record ('c, 'h, 't) Evaluator =
  policyEvaluators :: "uint64 \<rightharpoonup> 't PolicyEvaluator"
  headersEvaluators :: "'h HeadersEvaluator"
  clientCA :: string
  clientCRL :: string
  clientCertConstraints :: 'c

subsection \<open>Functions of other packages, taken as parameters\<close>

text \<open>
  What the evaluator calls while it serves a request and does not define itself:
  \<^verbatim>\<open>(*config.Policy).RouteID\<close>, \<^verbatim>\<open>base64.StdEncoding.DecodeString\<close>, the client
  certificate validator \<^verbatim>\<open>isValidClientCertificate\<close>, \<^verbatim>\<open>NewHeadersRequestFromPolicy\<close>, the
  two header-name constants of \<^verbatim>\<open>httputil\<close> with its \<^verbatim>\<open>CanonicalHeaderKey\<close>, and the key
  canonicalisation that \<^verbatim>\<open>http.Header.Add\<close> applies.
\<close>

record ('p, 'c, 'h) deps =
  RouteID :: "'p config_Policy_scheme \<Rightarrow> error + uint64"
  DecodeString :: "string \<Rightarrow> error + string"
  isValidClientCertificate ::
    "string \<Rightarrow> string \<Rightarrow> ClientCertificateInfo \<Rightarrow> 'c \<Rightarrow> error + bool"
  NewHeadersRequestFromPolicy ::
    "'p config_Policy_scheme option \<Rightarrow> RequestHTTP \<Rightarrow> 'h HeadersRequest_scheme"
  HeaderPomeriumJWTAssertion :: string
  HeaderPomeriumJWTAssertionFor :: string
  CanonicalHeaderKey :: "string \<Rightarrow> string"
  CanonicalMIMEHeaderKey :: "string \<Rightarrow> string"

text \<open>
  The calls into the three collaborating components are effects of an evaluation. Each
  unit of work returns, next to its result, the calls it made, in order and with their
  arguments.
\<close>

datatype ('c, 'h) call =
    Call_isValidClientCertificate string string ClientCertificateInfo 'c
  | Call_PolicyEvaluator_Evaluate uint64 PolicyRequest
  | Call_HeadersEvaluator_Evaluate "'h HeadersRequest_scheme"

fun is_validation_call :: "('c, 'h) call \<Rightarrow> bool" where
  "is_validation_call (Call_isValidClientCertificate ca crl cert cons) = True"
| "is_validation_call c = False"

fun is_policy_call :: "('c, 'h) call \<Rightarrow> bool" where
  "is_policy_call (Call_PolicyEvaluator_Evaluate rid preq) = True"
| "is_policy_call c = False"

subsection \<open>The policy unit\<close>

definition path_webauthn :: string where
  "path_webauthn = ''/.pomerium/webauthn''"

definition path_jwt :: string where
  "path_jwt = ''/.pomerium/jwt''"

definition evaluateInternal ::
  "('c, 'h, 't) Evaluator \<Rightarrow> 'p Request \<Rightarrow> ('c, 'h) call list \<times> (error + 't PolicyResponse)"
where
  "evaluateInternal e req =
     (let allowed = \<lparr>PolicyResponse.Allow = NewRuleResult True [ReasonPomeriumRoute],
                      Deny = RuleResult_unset, Traces = []\<rparr>
      in if Path (Request.HTTP req) = path_webauthn \<or> Path (Request.HTTP req) = path_jwt
         then (if ID (Request.Session req) = ''''
               then ([], Inr \<lparr>PolicyResponse.Allow =
                                 NewRuleResult False [ReasonUserUnauthenticated],
                               Deny = RuleResult_unset, Traces = []\<rparr>)
               else ([], Inr allowed))
         else ([], Inr allowed))"

definition getClientCA ::
  "('p, 'c, 'h) deps \<Rightarrow> ('c, 'h, 't) Evaluator \<Rightarrow> 'p config_Policy_scheme option
     \<Rightarrow> error + string"
where
  "getClientCA d e policy =
     (case policy of
        None \<Rightarrow> Inr (clientCA e)
      | Some p \<Rightarrow>
          if TLSDownstreamClientCA p \<noteq> ''''
          then (case DecodeString d (TLSDownstreamClientCA p) of
                  Inl err \<Rightarrow> Inl err
                | Inr bs \<Rightarrow> Inr bs)
          else Inr (clientCA e))"

definition evaluatePolicy ::
  "('p, 'c, 'h) deps \<Rightarrow> ('c, 'h, 't) Evaluator \<Rightarrow> 'p Request
     \<Rightarrow> ('c, 'h) call list \<times> (error + 't PolicyResponse)"
where
  "evaluatePolicy d e req =
     (case Policy req of
        None \<Rightarrow>
          ([], Inr \<lparr>PolicyResponse.Allow = RuleResult_unset,
                      Deny = NewRuleResult True [ReasonRouteNotFound], Traces = []\<rparr>)
      | Some policy \<Rightarrow>
          (case RouteID d policy of
             Inl err \<Rightarrow> ([], Inl (Errorf_w ''authorize: error computing policy route id: '' err))
           | Inr rid \<Rightarrow>
               (case policyEvaluators e rid of
                  None \<Rightarrow>
                    ([], Inr \<lparr>PolicyResponse.Allow = RuleResult_unset,
                                Deny = NewRuleResult True [ReasonRouteNotFound], Traces = []\<rparr>)
                | Some policyEvaluator \<Rightarrow>
                    (case getClientCA d e (Some policy) of
                       Inl err \<Rightarrow> ([], Inl err)
                     | Inr ca \<Rightarrow>
                         (let validation = Call_isValidClientCertificate ca (clientCRL e)
                                (ClientCertificate (Request.HTTP req)) (clientCertConstraints e)
                          in case isValidClientCertificate d ca (clientCRL e)
                                    (ClientCertificate (Request.HTTP req))
                                    (clientCertConstraints e) of
                               Inl err \<Rightarrow>
                                 ([validation],
                                  Inl (Errorf_w
                                    ''authorize: error validating client certificate: '' err))
                             | Inr valid \<Rightarrow>
                                 (let preq = \<lparr>PolicyRequest.HTTP = Request.HTTP req,
                                              Session = Request.Session req,
                                              IsValidClientCertificate = valid\<rparr>
                                  in ([validation, Call_PolicyEvaluator_Evaluate rid preq],
                                      policyEvaluator preq)))))))"

subsection \<open>The headers unit\<close>

text \<open>
  \<^verbatim>\<open>v, ok := m[k]\<close> on a Go map: the zero value and false when the key is absent.
\<close>

definition lookup_ok :: "(string \<rightharpoonup> string) \<Rightarrow> string \<Rightarrow> string \<times> bool" where
  "lookup_ok m k = (case m k of None \<Rightarrow> ('''', False) | Some v \<Rightarrow> (v, True))"

text \<open>\<^verbatim>\<open>http.Header.Add\<close> appends the value to the values of the canonical key.\<close>

definition Header_Add ::
  "('p, 'c, 'h) deps \<Rightarrow> http_Header \<Rightarrow> string \<Rightarrow> string \<Rightarrow> http_Header"
where
  "Header_Add d h key v =
     h(CanonicalMIMEHeaderKey d key \<mapsto>
         (case h (CanonicalMIMEHeaderKey d key) of None \<Rightarrow> [] | Some vs \<Rightarrow> vs) @ [v])"

definition carryOverJWTAssertion ::
  "('p, 'c, 'h) deps \<Rightarrow> http_Header \<Rightarrow> (string \<rightharpoonup> string) \<Rightarrow> http_Header"
where
  "carryOverJWTAssertion d dst src =
     (let jwtForKey = CanonicalHeaderKey d (HeaderPomeriumJWTAssertionFor d);
          (jwtFor, ok) = lookup_ok src jwtForKey
      in if ok \<and> jwtFor \<noteq> '''' then Header_Add d dst jwtForKey jwtFor
         else (let (jwtFor2, ok2) =
                     lookup_ok src (CanonicalHeaderKey d (HeaderPomeriumJWTAssertion d))
               in if ok2 \<and> jwtFor2 \<noteq> '''' then Header_Add d dst jwtForKey jwtFor2
                  else dst))"

definition evaluateHeaders ::
  "('p, 'c, 'h) deps \<Rightarrow> ('c, 'h, 't) Evaluator \<Rightarrow> 'p Request
     \<Rightarrow> ('c, 'h) call list \<times> (error + HeadersResponse)"
where
  "evaluateHeaders d e req =
     (let headersReq = (NewHeadersRequestFromPolicy d (Policy req) (Request.HTTP req))
                         \<lparr>HeadersRequest.Session := Request.Session req\<rparr>
      in ([Call_HeadersEvaluator_Evaluate headersReq],
          case headersEvaluators e headersReq of
            Inl err \<Rightarrow> Inl err
          | Inr res \<Rightarrow>
              Inr (res\<lparr>HeadersResponse.Headers :=
                         carryOverJWTAssertion d (HeadersResponse.Headers res)
                           (RequestHTTP.Headers (Request.HTTP req))\<rparr>)))"

subsection \<open>Evaluate: the two units joined by an errgroup\<close>

text \<open>
  \<^verbatim>\<open>Evaluate\<close> starts both units as goroutines of one \<^verbatim>\<open>errgroup\<close> and waits. \<^verbatim>\<open>Wait\<close>
  returns the error of the unit that failed first, so when both fail the result depends
  on the schedule: the parameter \<open>first\<close> names the unit that finished first. The first
  failure cancels the context of the other unit, which can only change an error that
  \<^verbatim>\<open>Wait\<close> drops; the units' own code never reads the context.
\<close>

datatype unit_id = PolicyUnit | HeadersUnit

definition errgroup_Wait ::
  "unit_id \<Rightarrow> error + 'a \<Rightarrow> error + 'b \<Rightarrow> error + ('a \<times> 'b)"
where
  "errgroup_Wait first p h =
     (case p of
        Inl perr \<Rightarrow>
          (case h of
             Inl herr \<Rightarrow> Inl (case first of PolicyUnit \<Rightarrow> perr | HeadersUnit \<Rightarrow> herr)
           | Inr hv \<Rightarrow> Inl perr)
      | Inr pv \<Rightarrow>
          (case h of
             Inl herr \<Rightarrow> Inl herr
           | Inr hv \<Rightarrow> Inr (pv, hv)))"

definition policy_unit ::
  "('p, 'c, 'h) deps \<Rightarrow> ('c, 'h, 't) Evaluator \<Rightarrow> 'p Request
     \<Rightarrow> ('c, 'h) call list \<times> (error + 't PolicyResponse)"
where
  "policy_unit d e req =
     (if IsInternal req then evaluateInternal e req else evaluatePolicy d e req)"

record ('c, 'h, 't) evaluation =
  policy_calls :: "('c, 'h) call list"
  headers_calls :: "('c, 'h) call list"
  returned :: "error + 't Result"

definition Evaluate ::
  "('p, 'c, 'h) deps \<Rightarrow> ('c, 'h, 't) Evaluator \<Rightarrow> unit_id \<Rightarrow> 'p Request
     \<Rightarrow> ('c, 'h, 't) evaluation"
where
  "Evaluate d e first req =
     (let (pcalls, policyOutput) = policy_unit d e req;
          (hcalls, headersOutput) = evaluateHeaders d e req
      in \<lparr>policy_calls = pcalls,
          headers_calls = hcalls,
          returned =
            (case errgroup_Wait first policyOutput headersOutput of
               Inl err \<Rightarrow> Inl err
             | Inr (po, ho) \<Rightarrow>
                 Inr \<lparr>Result.Allow = PolicyResponse.Allow po,
                      Deny = PolicyResponse.Deny po,
                      Headers = HeadersResponse.Headers ho,
                      Traces = PolicyResponse.Traces po\<rparr>)\<rparr>)"

subsection \<open>The rule engine behind a recovering boundary\<close>

text \<open>
  A call into the rule engine either returns its pair of results or panics with a value.
  The value of a panic is an interface value and may be nil: the repository is built
  with Go 1.20, where \<^verbatim>\<open>panic(nil)\<close> is legal and \<^verbatim>\<open>recover()\<close> then answers nil, as it
  does when nothing panicked. A value that is not nil is given by its \<^verbatim>\<open>%v\<close> rendering.
  The prepared query \<open>q\<close> is modelled by its \<^verbatim>\<open>Eval\<close> method; a result set is a slice,
  nil being the empty list.
\<close>

datatype 'a outcome = Returns 'a | Panics "string option"

definition recover :: "'a outcome \<Rightarrow> string option" where
  "recover r = (case r of Returns x \<Rightarrow> None | Panics v \<Rightarrow> v)"

text \<open>
  The named results \<^verbatim>\<open>resultSet\<close> and \<^verbatim>\<open>err\<close> start as nil and are assigned only if
  \<^verbatim>\<open>q.Eval\<close> returns; the deferred function then overwrites \<^verbatim>\<open>err\<close> when the recovered
  value is not nil.
\<close>

definition safeEval ::
  "('o list \<Rightarrow> ('r list \<times> error option) outcome) \<Rightarrow> 'o list \<Rightarrow> 'r list \<times> error option"
where
  "safeEval q options =
     (let r = q options;
          (resultSet, err) =
             (case r of Returns (rs, qerr) \<Rightarrow> (rs, qerr) | Panics v \<Rightarrow> ([], None))
      in case recover r of
           Some e \<Rightarrow> (resultSet, Some (Errorf_v e))
         | None \<Rightarrow> (resultSet, err))"

subsection \<open>Construction: signing key, store, evaluators\<close>

text \<open>
  Modelled from the spec: the part of the store that \<^verbatim>\<open>updateStore\<close> writes (serverless
  service account, claim-header mapping, route policies, signing key). Each \<^verbatim>\<open>Update\<close>
  method of \<^verbatim>\<open>store.Store\<close> replaces one of them.
\<close>

record ('p, 'k, 'j) Store =
  store_GoogleCloudServerlessAuthenticationServiceAccount :: string
  store_JWTClaimHeaders :: 'j
  store_RoutePolicies :: "'p config_Policy_scheme list"
  store_SigningKey :: "'k option"

definition UpdateGoogleCloudServerlessAuthenticationServiceAccount ::
  "string \<Rightarrow> ('p, 'k, 'j) Store \<Rightarrow> ('p, 'k, 'j) Store"
where
  "UpdateGoogleCloudServerlessAuthenticationServiceAccount serviceAccount st =
     st\<lparr>store_GoogleCloudServerlessAuthenticationServiceAccount := serviceAccount\<rparr>"

definition UpdateJWTClaimHeaders :: "'j \<Rightarrow> ('p, 'k, 'j) Store \<Rightarrow> ('p, 'k, 'j) Store" where
  "UpdateJWTClaimHeaders headers st = st\<lparr>store_JWTClaimHeaders := headers\<rparr>"

definition UpdateRoutePolicies ::
  "'p config_Policy_scheme list \<Rightarrow> ('p, 'k, 'j) Store \<Rightarrow> ('p, 'k, 'j) Store"
where
  "UpdateRoutePolicies ps st = st\<lparr>store_RoutePolicies := ps\<rparr>"

definition UpdateSigningKey :: "'k \<Rightarrow> ('p, 'k, 'j) Store \<Rightarrow> ('p, 'k, 'j) Store" where
  "UpdateSigningKey jwk st = st\<lparr>store_SigningKey := Some jwk\<rparr>"

text \<open>
  What construction calls and does not define itself: key generation, encoding and
  decoding of \<^verbatim>\<open>cryptutil\<close> (\<^verbatim>\<open>NewSigningKey\<close> draws a fresh random key, so the parameter
  is the outcome of that one call), and the constructors of the two kinds of evaluator.
\<close>

record ('p, 'sk, 'k, 'j, 'h, 't) builders =
  NewSigningKey :: "error + 'sk"
  EncodePrivateKey :: "'sk \<Rightarrow> error + string"
  PrivateJWKFromBytes :: "string \<Rightarrow> error + 'k"
  NewHeadersEvaluator :: "('p, 'k, 'j) Store \<Rightarrow> error + 'h HeadersEvaluator"
  NewPolicyEvaluator ::
    "('p, 'k, 'j) Store \<Rightarrow> 'p config_Policy_scheme \<Rightarrow> bool \<Rightarrow> error + 't PolicyEvaluator"

definition getJWK ::
  "('p, 'sk, 'k, 'j, 'h, 't) builders \<Rightarrow> ('p, 'c, 'j) evaluatorConfig \<Rightarrow> error + 'k"
where
  "getJWK b cfg =
     (case (if length (signingKey cfg) = 0
            then (case NewSigningKey b of
                    Inl err \<Rightarrow> Inl (Errorf_w ''couldn't generate signing key: '' err)
                  | Inr key \<Rightarrow>
                      (case EncodePrivateKey b key of
                         Inl err \<Rightarrow> Inl (Errorf_w ''bad signing key: '' err)
                       | Inr bs \<Rightarrow> Inr bs))
            else Inr (signingKey cfg)) of
        Inl err \<Rightarrow> Inl err
      | Inr decodedCert \<Rightarrow>
          (case PrivateJWKFromBytes b decodedCert of
             Inl err \<Rightarrow> Inl (Errorf_w ''couldn't generate signing key: '' err)
           | Inr jwk \<Rightarrow> Inr jwk))"

definition updateStore ::
  "('p, 'sk, 'k, 'j, 'h, 't) builders \<Rightarrow> ('p, 'k, 'j) Store \<Rightarrow> ('p, 'c, 'j) evaluatorConfig
     \<Rightarrow> error option \<times> ('p, 'k, 'j) Store"
where
  "updateStore b st cfg =
     (case getJWK b cfg of
        Inl err \<Rightarrow> (Some (Errorf_w ''authorize: couldn't create signer: '' err), st)
      | Inr jwk \<Rightarrow>
          (None,
           UpdateSigningKey jwk
             (UpdateRoutePolicies (policies cfg)
               (UpdateJWTClaimHeaders (jwtClaimsHeaders cfg)
                 (UpdateGoogleCloudServerlessAuthenticationServiceAccount
                    (googleCloudServerlessAuthenticationServiceAccount cfg) st)))))"

text \<open>The loop of \<^verbatim>\<open>New\<close> over \<^verbatim>\<open>cfg.policies\<close>, filling the map of policy evaluators.\<close>

fun newPolicyEvaluators ::
  "('p, 'c, 'h) deps \<Rightarrow> ('p, 'sk, 'k, 'j, 'h, 't) builders \<Rightarrow> ('p, 'k, 'j) Store \<Rightarrow> bool
     \<Rightarrow> (uint64 \<rightharpoonup> 't PolicyEvaluator) \<Rightarrow> 'p config_Policy_scheme list
     \<Rightarrow> error + (uint64 \<rightharpoonup> 't PolicyEvaluator)"
where
  "newPolicyEvaluators d b st flag m [] = Inr m"
| "newPolicyEvaluators d b st flag m (configPolicy # rest) =
     (case RouteID d configPolicy of
        Inl err \<Rightarrow> Inl (Errorf_w ''authorize: error computing policy route id: '' err)
      | Inr rid \<Rightarrow>
          (case NewPolicyEvaluator b st configPolicy flag of
             Inl err \<Rightarrow> Inl err
           | Inr policyEvaluator \<Rightarrow>
               newPolicyEvaluators d b st flag (m(rid \<mapsto> policyEvaluator)) rest))"

definition New ::
  "('p, 'c, 'h) deps \<Rightarrow> ('p, 'sk, 'k, 'j, 'h, 't) builders \<Rightarrow> ('p, 'k, 'j) Store
     \<Rightarrow> 'c \<Rightarrow> 'j \<Rightarrow> ('p, 'c, 'j) Option list
     \<Rightarrow> (error + ('c, 'h, 't) Evaluator) \<times> ('p, 'k, 'j) Store"
where
  "New d b st c0 j0 options =
     (let cfg = getConfig c0 j0 options
      in case updateStore b st cfg of
           (Some err, st') \<Rightarrow> (Inl err, st')
         | (None, st') \<Rightarrow>
             (case NewHeadersEvaluator b st' of
                Inl err \<Rightarrow> (Inl err, st')
              | Inr he \<Rightarrow>
                  (case newPolicyEvaluators d b st' (addDefaultClientCertificateRule cfg)
                          Map.empty (policies cfg) of
                     Inl err \<Rightarrow> (Inl err, st')
                   | Inr m \<Rightarrow>
                       (Inr \<lparr>policyEvaluators = m, headersEvaluators = he,
                             clientCA = evaluatorConfig.clientCA cfg,
                             clientCRL = evaluatorConfig.clientCRL cfg,
                             clientCertConstraints = evaluatorConfig.clientCertConstraints cfg\<rparr>,
                        st'))))"

subsection \<open>Concrete collaborators and requests\<close>

text \<open>
  Small instances of the parameters, used to run the definitions: one route with id 7,
  a decoder that knows the encoding of the two bytes \<open>CA\<close>, a validator that fails on a
  leaf it cannot parse and otherwise accepts a presented certificate, and policy and
  headers evaluators that either answer or fail.
\<close>

definition ex_canonical :: "string \<Rightarrow> string" where
  "ex_canonical k =
     (if k = ''x-pomerium-jwt-assertion'' then ''X-Pomerium-Jwt-Assertion''
      else if k = ''x-pomerium-jwt-assertion-for'' then ''X-Pomerium-Jwt-Assertion-For''
      else k)"

definition ex_deps :: "(unit, unit, unit) deps" where
  "ex_deps =
     \<lparr>RouteID = (\<lambda>p. Inr 7),
      DecodeString =
        (\<lambda>s. if s = ''Q0E='' then Inr ''CA'' else Inl (ErrorString ''illegal base64 data'')),
      isValidClientCertificate =
        (\<lambda>ca crl cert cons.
           if Leaf cert = ''garbage'' then Inl (ErrorString ''malformed certificate'')
           else Inr (Presented cert)),
      NewHeadersRequestFromPolicy = (\<lambda>policy http. \<lparr>HeadersRequest.Session = \<lparr>ID = ''''\<rparr>\<rparr>),
      HeaderPomeriumJWTAssertion = ''x-pomerium-jwt-assertion'',
      HeaderPomeriumJWTAssertionFor = ''x-pomerium-jwt-assertion-for'',
      CanonicalHeaderKey = ex_canonical,
      CanonicalMIMEHeaderKey = ex_canonical\<rparr>"

definition ex_deps_no_route_id :: "(unit, unit, unit) deps" where
  "ex_deps_no_route_id = ex_deps\<lparr>RouteID := (\<lambda>p. Inl (ErrorString ''hash failed''))\<rparr>"

text \<open>
  A validator whose answer depends on the CA it is given: a presented leaf is valid when
  it names that CA as its issuer. And a route evaluator that denies a request whose
  certificate was found invalid.
\<close>

definition ex_deps_issuer :: "(unit, unit, unit) deps" where
  "ex_deps_issuer =
     ex_deps\<lparr>isValidClientCertificate :=
               (\<lambda>ca crl cert cons. Inr (Presented cert \<and> Leaf cert = ''issued-by:'' @ ca))\<rparr>"

definition ex_deny_invalid :: "string PolicyEvaluator" where
  "ex_deny_invalid preq =
     (if IsValidClientCertificate preq
      then Inr \<lparr>PolicyResponse.Allow = NewRuleResult True [ReasonOther ''accept''],
                Deny = RuleResult_unset, Traces = []\<rparr>
      else Inr \<lparr>PolicyResponse.Allow = RuleResult_unset,
                Deny = NewRuleResult True [ReasonInvalidClientCertificate], Traces = []\<rparr>)"

definition ex_allow_all :: "string PolicyEvaluator" where
  "ex_allow_all preq =
     Inr \<lparr>PolicyResponse.Allow = NewRuleResult True [ReasonOther ''accept''],
          Deny = RuleResult_unset, Traces = [''trace-1'']\<rparr>"

definition ex_allow_all_untraced :: "string PolicyEvaluator" where
  "ex_allow_all_untraced preq =
     Inr \<lparr>PolicyResponse.Allow = NewRuleResult True [ReasonOther ''accept''],
          Deny = RuleResult_unset, Traces = []\<rparr>"

definition ex_policy_fails :: "string PolicyEvaluator" where
  "ex_policy_fails preq = Inl (ErrorString ''rego: eval fault'')"

definition ex_headers_ok :: "unit HeadersEvaluator" where
  "ex_headers_ok hreq =
     Inr \<lparr>HeadersResponse.Headers = [''X-Pomerium-Jwt-Assertion'' \<mapsto> [''signed'']]\<rparr>"

definition ex_headers_fail :: "unit HeadersEvaluator" where
  "ex_headers_fail hreq = Inl (ErrorString ''headers: eval fault'')"

definition ex_evaluator ::
  "(uint64 \<rightharpoonup> string PolicyEvaluator) \<Rightarrow> unit HeadersEvaluator \<Rightarrow> (unit, unit, string) Evaluator"
where
  "ex_evaluator pes he =
     \<lparr>policyEvaluators = pes, headersEvaluators = he,
      clientCA = ''GLOBAL'', clientCRL = [], clientCertConstraints = ()\<rparr>"

definition ex_cert :: "bool \<Rightarrow> string \<Rightarrow> ClientCertificateInfo" where
  "ex_cert presented leaf = \<lparr>Presented = presented, Leaf = leaf, Intermediates = []\<rparr>"

definition ex_request ::
  "bool \<Rightarrow> config_Policy option \<Rightarrow> string \<Rightarrow> string \<Rightarrow> (string \<rightharpoonup> string)
     \<Rightarrow> ClientCertificateInfo \<Rightarrow> unit Request"
where
  "ex_request internal policy path sid hdrs cert =
     \<lparr>IsInternal = internal, Policy = policy,
      HTTP = \<lparr>Method = ''GET'', Hostname = ''app.example.com'', Path = path,
               URL = ''https://app.example.com'' @ path, Headers = hdrs,
               ClientCertificate = cert, IP = ''10.0.0.1''\<rparr>,
      Session = \<lparr>ID = sid\<rparr>\<rparr>"

definition ex_builders :: "(unit, string, string, unit, unit, string) builders" where
  "ex_builders =
     \<lparr>NewSigningKey = Inr ''fresh-key'',
      EncodePrivateKey = (\<lambda>k. Inr (''PEM:'' @ k)),
      PrivateJWKFromBytes =
        (\<lambda>bs. if take 4 bs = ''PEM:'' then Inr (''JWK:'' @ drop 4 bs)
              else Inl (ErrorString ''unsupported key type'')),
      NewHeadersEvaluator = (\<lambda>st. Inr ex_headers_ok),
      NewPolicyEvaluator = (\<lambda>st p flag. Inr ex_allow_all)\<rparr>"

definition ex_store :: "(unit, string, unit) Store" where
  "ex_store =
     \<lparr>store_GoogleCloudServerlessAuthenticationServiceAccount = ''old-account'',
      store_JWTClaimHeaders = (),
      store_RoutePolicies = [],
      store_SigningKey = Some ''JWK:old-key''\<rparr>"

section \<open>Properties\<close>

subsection \<open>Shared facts about the join and the two units\<close>

lemma Evaluate_policy_calls:
  "policy_calls (Evaluate d e first req) = fst (policy_unit d e req)"
  by (simp add: Evaluate_def split: prod.splits)

lemma Evaluate_headers_calls:
  "headers_calls (Evaluate d e first req) = fst (evaluateHeaders d e req)"
  by (simp add: Evaluate_def split: prod.splits)

lemma Evaluate_returned:
  "returned (Evaluate d e first req) =
     (case errgroup_Wait first (snd (policy_unit d e req)) (snd (evaluateHeaders d e req)) of
        Inl err \<Rightarrow> Inl err
      | Inr (po, ho) \<Rightarrow>
          Inr \<lparr>Result.Allow = PolicyResponse.Allow po,
               Deny = PolicyResponse.Deny po,
               Headers = HeadersResponse.Headers ho,
               Traces = PolicyResponse.Traces po\<rparr>)"
  by (simp add: Evaluate_def split: prod.splits)

lemma evaluateHeaders_calls:
  "fst (evaluateHeaders d e req) =
     [Call_HeadersEvaluator_Evaluate
        ((NewHeadersRequestFromPolicy d (Policy req) (Request.HTTP req))
           \<lparr>HeadersRequest.Session := Request.Session req\<rparr>)]"
  by (simp add: evaluateHeaders_def Let_def)

lemma evaluateHeaders_result:
  "snd (evaluateHeaders d e req) =
     (case headersEvaluators e
             ((NewHeadersRequestFromPolicy d (Policy req) (Request.HTTP req))
                \<lparr>HeadersRequest.Session := Request.Session req\<rparr>) of
        Inl err \<Rightarrow> Inl err
      | Inr res \<Rightarrow>
          Inr (res\<lparr>HeadersResponse.Headers :=
                     carryOverJWTAssertion d (HeadersResponse.Headers res)
                       (RequestHTTP.Headers (Request.HTTP req))\<rparr>))"
  by (simp add: evaluateHeaders_def Let_def)

lemma policy_unit_internal:
  assumes "IsInternal req"
  shows "policy_unit d e req =
     ([], Inr \<lparr>PolicyResponse.Allow =
                 (if (Path (Request.HTTP req) = path_webauthn
                        \<or> Path (Request.HTTP req) = path_jwt)
                      \<and> ID (Request.Session req) = ''''
                  then NewRuleResult False [ReasonUserUnauthenticated]
                  else NewRuleResult True [ReasonPomeriumRoute]),
               Deny = RuleResult_unset, Traces = []\<rparr>)"
  using assms by (simp add: policy_unit_def evaluateInternal_def Let_def)

lemma policy_unit_not_found:
  assumes "\<not> IsInternal req"
    and "Policy req = None
         \<or> (Policy req = Some p \<and> RouteID d p = Inr rid \<and> policyEvaluators e rid = None)"
  shows "policy_unit d e req =
     ([], Inr \<lparr>PolicyResponse.Allow = RuleResult_unset,
               Deny = NewRuleResult True [ReasonRouteNotFound], Traces = []\<rparr>)"
  using assms by (auto simp: policy_unit_def evaluatePolicy_def)

lemma policy_unit_route_id_error:
  assumes "\<not> IsInternal req" and "Policy req = Some p" and "RouteID d p = Inl err"
  shows "policy_unit d e req =
     ([], Inl (Errorf_w ''authorize: error computing policy route id: '' err))"
  using assms by (simp add: policy_unit_def evaluatePolicy_def)

lemma policy_unit_registered:
  assumes "\<not> IsInternal req" and "Policy req = Some p" and "RouteID d p = Inr rid"
    and "policyEvaluators e rid = Some pe"
  shows "policy_unit d e req =
     (case getClientCA d e (Some p) of
        Inl err \<Rightarrow> ([], Inl err)
      | Inr ca \<Rightarrow>
          (case isValidClientCertificate d ca (clientCRL e)
                  (ClientCertificate (Request.HTTP req)) (clientCertConstraints e) of
             Inl err \<Rightarrow>
               ([Call_isValidClientCertificate ca (clientCRL e)
                   (ClientCertificate (Request.HTTP req)) (clientCertConstraints e)],
                Inl (Errorf_w ''authorize: error validating client certificate: '' err))
           | Inr valid \<Rightarrow>
               ([Call_isValidClientCertificate ca (clientCRL e)
                   (ClientCertificate (Request.HTTP req)) (clientCertConstraints e),
                 Call_PolicyEvaluator_Evaluate rid
                   \<lparr>PolicyRequest.HTTP = Request.HTTP req,
                    Session = Request.Session req,
                    IsValidClientCertificate = valid\<rparr>],
                pe \<lparr>PolicyRequest.HTTP = Request.HTTP req,
                    Session = Request.Session req,
                    IsValidClientCertificate = valid\<rparr>)))"
  using assms
  by (simp add: policy_unit_def evaluatePolicy_def Let_def split: sum.splits)

lemma errgroup_Wait_policy_error:
  "errgroup_Wait first (Inl perr) h =
     Inl (case h of
            Inl herr \<Rightarrow> (case first of PolicyUnit \<Rightarrow> perr | HeadersUnit \<Rightarrow> herr)
          | Inr ho \<Rightarrow> perr)"
  by (simp add: errgroup_Wait_def split: sum.splits)

lemma errgroup_Wait_policy_ok:
  "errgroup_Wait first (Inr po) h =
     (case h of Inl herr \<Rightarrow> Inl herr | Inr ho \<Rightarrow> Inr (po, ho))"
  by (simp add: errgroup_Wait_def split: sum.splits)

text \<open>How the concrete instances evaluate.\<close>

lemmas ex_defs =
  ex_deps_def ex_deps_no_route_id_def ex_canonical_def ex_allow_all_def
  ex_allow_all_untraced_def ex_policy_fails_def ex_headers_ok_def ex_headers_fail_def
  ex_evaluator_def ex_cert_def ex_request_def ex_deps_issuer_def ex_deny_invalid_def

lemmas unit_defs =
  policy_unit_def evaluateInternal_def evaluatePolicy_def getClientCA_def
  evaluateHeaders_def carryOverJWTAssertion_def lookup_ok_def Header_Add_def
  errgroup_Wait_def NewRuleResult_def RuleResult_unset_def path_webauthn_def path_jwt_def

subsection \<open>Requests without a route\<close>

text \<open>
  C1 as the spec states it: every non-internal request whose policy is absent, or whose
  route id has no registered PolicyEvaluator, makes Evaluate return a result with
  Deny = (true, RouteNotFound). This fails when the headers unit fails: Evaluate then
  returns that error and no result. The request below has no policy and a failing
  headers evaluator.
\<close>

theorem route_not_found_counterexample:
  "\<not> IsInternal (ex_request False None ''/'' '''' Map.empty (ex_cert False []))
   \<and> Policy (ex_request False None ''/'' '''' Map.empty (ex_cert False [])) = None
   \<and> returned (Evaluate ex_deps (ex_evaluator Map.empty ex_headers_fail) PolicyUnit
                 (ex_request False None ''/'' '''' Map.empty (ex_cert False [])))
       = Inl (ErrorString ''headers: eval fault'')"
  by (simp add: Evaluate_returned ex_defs unit_defs)

text \<open>
  C1, amended: for every non-internal request whose policy is absent, or whose policy's
  route id has no registered PolicyEvaluator, the policy unit makes no call at all (no
  client-certificate validation, no policy rule evaluation), the only call of the
  evaluation is the one to the headers evaluator, and Evaluate returns the error of the
  headers unit if that unit fails and otherwise a result with
  Deny = (true, [RouteNotFound]), Allow unset, no traces and the headers of the headers
  unit.
\<close>

theorem route_not_found_denied:
  assumes "\<not> IsInternal req"
    and "Policy req = None
         \<or> (Policy req = Some p \<and> RouteID d p = Inr rid \<and> policyEvaluators e rid = None)"
  shows "policy_calls (Evaluate d e first req) = []
    \<and> headers_calls (Evaluate d e first req) =
        [Call_HeadersEvaluator_Evaluate
           ((NewHeadersRequestFromPolicy d (Policy req) (Request.HTTP req))
              \<lparr>HeadersRequest.Session := Request.Session req\<rparr>)]
    \<and> returned (Evaluate d e first req) =
        (case snd (evaluateHeaders d e req) of
           Inl err \<Rightarrow> Inl err
         | Inr ho \<Rightarrow>
             Inr \<lparr>Result.Allow = RuleResult_unset,
                  Deny = NewRuleResult True [ReasonRouteNotFound],
                  Headers = HeadersResponse.Headers ho,
                  Traces = []\<rparr>)"
proof -
  have pu: "policy_unit d e req =
     ([], Inr \<lparr>PolicyResponse.Allow = RuleResult_unset,
               Deny = NewRuleResult True [ReasonRouteNotFound], Traces = []\<rparr>)"
    using assms by (rule policy_unit_not_found)
  have "policy_calls (Evaluate d e first req) = []"
    by (simp add: Evaluate_policy_calls pu)
  moreover have "headers_calls (Evaluate d e first req) =
        [Call_HeadersEvaluator_Evaluate
           ((NewHeadersRequestFromPolicy d (Policy req) (Request.HTTP req))
              \<lparr>HeadersRequest.Session := Request.Session req\<rparr>)]"
    by (simp add: Evaluate_headers_calls evaluateHeaders_calls)
  moreover have "returned (Evaluate d e first req) =
        (case snd (evaluateHeaders d e req) of
           Inl err \<Rightarrow> Inl err
         | Inr ho \<Rightarrow>
             Inr \<lparr>Result.Allow = RuleResult_unset,
                  Deny = NewRuleResult True [ReasonRouteNotFound],
                  Headers = HeadersResponse.Headers ho,
                  Traces = []\<rparr>)"
    by (simp add: Evaluate_returned pu errgroup_Wait_policy_ok split: sum.splits)
  ultimately show ?thesis by simp
qed

theorem route_not_found_denied_witness:
  "\<not> IsInternal (ex_request False None ''/'' ''s1'' Map.empty (ex_cert False []))
   \<and> Policy (ex_request False None ''/'' ''s1'' Map.empty (ex_cert False [])) = None
   \<and> policy_calls (Evaluate ex_deps (ex_evaluator Map.empty ex_headers_ok) HeadersUnit
                     (ex_request False None ''/'' ''s1'' Map.empty (ex_cert False []))) = []
   \<and> returned (Evaluate ex_deps (ex_evaluator Map.empty ex_headers_ok) HeadersUnit
                 (ex_request False None ''/'' ''s1'' Map.empty (ex_cert False [])))
       = Inr \<lparr>Result.Allow = \<lparr>Value = False, Reasons = []\<rparr>,
              Deny = \<lparr>Value = True, Reasons = [ReasonRouteNotFound]\<rparr>,
              Headers = [''X-Pomerium-Jwt-Assertion'' \<mapsto> [''signed'']],
              Traces = []\<rparr>
   \<and> Policy (ex_request False (Some \<lparr>TLSDownstreamClientCA = ''''\<rparr>) ''/'' ''s1'' Map.empty
               (ex_cert False [])) = Some \<lparr>TLSDownstreamClientCA = ''''\<rparr>
   \<and> RouteID ex_deps \<lparr>TLSDownstreamClientCA = ''''\<rparr> = Inr 7
   \<and> policyEvaluators (ex_evaluator Map.empty ex_headers_fail) 7 = None
   \<and> returned (Evaluate ex_deps (ex_evaluator Map.empty ex_headers_fail) HeadersUnit
                 (ex_request False (Some \<lparr>TLSDownstreamClientCA = ''''\<rparr>) ''/'' ''s1'' Map.empty
                    (ex_cert False [])))
       = Inl (ErrorString ''headers: eval fault'')"
  using
    route_not_found_denied [where req = "ex_request False None ''/'' ''s1'' Map.empty (ex_cert False [])"
      and d = ex_deps and e = "ex_evaluator Map.empty ex_headers_ok" and first = HeadersUnit]
    route_not_found_denied [where
      req = "ex_request False (Some \<lparr>TLSDownstreamClientCA = ''''\<rparr>) ''/'' ''s1'' Map.empty (ex_cert False [])"
      and p = "\<lparr>TLSDownstreamClientCA = ''''\<rparr>" and rid = 7
      and d = ex_deps and e = "ex_evaluator Map.empty ex_headers_fail" and first = HeadersUnit]
  by (simp add: ex_defs evaluateHeaders_def carryOverJWTAssertion_def lookup_ok_def
      NewRuleResult_def RuleResult_unset_def)

subsection \<open>Internal requests\<close>

text \<open>
  C2 as the spec states it: every internal request gets the result
  Allow = (false, UserUnauthenticated) or Allow = (true, PomeriumRoute). This fails when
  the headers unit fails: Evaluate then returns that error and no result. The request
  below is internal, on an ordinary path, with a failing headers evaluator.
\<close>

theorem internal_request_counterexample:
  "IsInternal (ex_request True None ''/.pomerium/'' ''s1'' Map.empty (ex_cert False []))
   \<and> returned (Evaluate ex_deps (ex_evaluator Map.empty ex_headers_fail) PolicyUnit
                 (ex_request True None ''/.pomerium/'' ''s1'' Map.empty (ex_cert False [])))
       = Inl (ErrorString ''headers: eval fault'')"
  by (simp add: Evaluate_returned ex_defs unit_defs)

text \<open>
  C2, amended: for every request with isInternal = true the policy unit makes no call (no
  policy rule engine, no certificate validation), the only call of the evaluation is the
  one to the headers evaluator, and Evaluate returns the error of the
  headers unit if that unit fails and otherwise a result with Deny unset, no traces and
  Allow = (false, [UserUnauthenticated]) when the path is /.pomerium/webauthn or
  /.pomerium/jwt and session.id is empty, Allow = (true, [PomeriumRoute]) for those two
  paths with a non-empty session.id and for every other path whatever the session.
\<close>

theorem internal_request_decision:
  assumes "IsInternal req"
  shows "policy_calls (Evaluate d e first req) = []
    \<and> headers_calls (Evaluate d e first req) =
        [Call_HeadersEvaluator_Evaluate
           ((NewHeadersRequestFromPolicy d (Policy req) (Request.HTTP req))
              \<lparr>HeadersRequest.Session := Request.Session req\<rparr>)]
    \<and> returned (Evaluate d e first req) =
        (case snd (evaluateHeaders d e req) of
           Inl err \<Rightarrow> Inl err
         | Inr ho \<Rightarrow>
             Inr \<lparr>Result.Allow =
                    (if (Path (Request.HTTP req) = ''/.pomerium/webauthn''
                           \<or> Path (Request.HTTP req) = ''/.pomerium/jwt'')
                         \<and> ID (Request.Session req) = ''''
                     then NewRuleResult False [ReasonUserUnauthenticated]
                     else NewRuleResult True [ReasonPomeriumRoute]),
                  Deny = RuleResult_unset,
                  Headers = HeadersResponse.Headers ho,
                  Traces = []\<rparr>)"
proof -
  note pu = policy_unit_internal [OF assms, of d e]
  have "policy_calls (Evaluate d e first req) = []"
    by (simp add: Evaluate_policy_calls pu)
  moreover have "headers_calls (Evaluate d e first req) =
        [Call_HeadersEvaluator_Evaluate
           ((NewHeadersRequestFromPolicy d (Policy req) (Request.HTTP req))
              \<lparr>HeadersRequest.Session := Request.Session req\<rparr>)]"
    by (simp add: Evaluate_headers_calls evaluateHeaders_calls)
  moreover have "returned (Evaluate d e first req) =
        (case snd (evaluateHeaders d e req) of
           Inl err \<Rightarrow> Inl err
         | Inr ho \<Rightarrow>
             Inr \<lparr>Result.Allow =
                    (if (Path (Request.HTTP req) = ''/.pomerium/webauthn''
                           \<or> Path (Request.HTTP req) = ''/.pomerium/jwt'')
                         \<and> ID (Request.Session req) = ''''
                     then NewRuleResult False [ReasonUserUnauthenticated]
                     else NewRuleResult True [ReasonPomeriumRoute]),
                  Deny = RuleResult_unset,
                  Headers = HeadersResponse.Headers ho,
                  Traces = []\<rparr>)"
    by (simp add: Evaluate_returned pu errgroup_Wait_policy_ok path_webauthn_def
        path_jwt_def split: sum.splits)
  ultimately show ?thesis by simp
qed

theorem internal_request_decision_witness:
  "IsInternal (ex_request True None ''/.pomerium/jwt'' '''' Map.empty (ex_cert False []))
   \<and> returned (Evaluate ex_deps (ex_evaluator [7 \<mapsto> ex_allow_all] ex_headers_ok) PolicyUnit
                 (ex_request True None ''/.pomerium/jwt'' '''' Map.empty (ex_cert False [])))
       = Inr \<lparr>Result.Allow = \<lparr>Value = False, Reasons = [ReasonUserUnauthenticated]\<rparr>,
              Deny = \<lparr>Value = False, Reasons = []\<rparr>,
              Headers = [''X-Pomerium-Jwt-Assertion'' \<mapsto> [''signed'']],
              Traces = []\<rparr>
   \<and> returned (Evaluate ex_deps (ex_evaluator [7 \<mapsto> ex_allow_all] ex_headers_ok) PolicyUnit
                 (ex_request True None ''/.pomerium/jwt'' ''s1'' Map.empty (ex_cert False [])))
       = Inr \<lparr>Result.Allow = \<lparr>Value = True, Reasons = [ReasonPomeriumRoute]\<rparr>,
              Deny = \<lparr>Value = False, Reasons = []\<rparr>,
              Headers = [''X-Pomerium-Jwt-Assertion'' \<mapsto> [''signed'']],
              Traces = []\<rparr>
   \<and> returned (Evaluate ex_deps (ex_evaluator [7 \<mapsto> ex_allow_all] ex_headers_ok) PolicyUnit
                 (ex_request True None ''/.pomerium/sign_out'' '''' Map.empty (ex_cert False [])))
       = Inr \<lparr>Result.Allow = \<lparr>Value = True, Reasons = [ReasonPomeriumRoute]\<rparr>,
              Deny = \<lparr>Value = False, Reasons = []\<rparr>,
              Headers = [''X-Pomerium-Jwt-Assertion'' \<mapsto> [''signed'']],
              Traces = []\<rparr>
   \<and> policy_calls (Evaluate ex_deps (ex_evaluator [7 \<mapsto> ex_allow_all] ex_headers_ok) PolicyUnit
                 (ex_request True None ''/.pomerium/sign_out'' '''' Map.empty (ex_cert False [])))
       = []"
  using
    internal_request_decision [where d = ex_deps
      and e = "ex_evaluator [7 \<mapsto> ex_allow_all] ex_headers_ok" and first = PolicyUnit
      and req = "ex_request True None ''/.pomerium/jwt'' '''' Map.empty (ex_cert False [])"]
    internal_request_decision [where d = ex_deps
      and e = "ex_evaluator [7 \<mapsto> ex_allow_all] ex_headers_ok" and first = PolicyUnit
      and req = "ex_request True None ''/.pomerium/jwt'' ''s1'' Map.empty (ex_cert False [])"]
    internal_request_decision [where d = ex_deps
      and e = "ex_evaluator [7 \<mapsto> ex_allow_all] ex_headers_ok" and first = PolicyUnit
      and req = "ex_request True None ''/.pomerium/sign_out'' '''' Map.empty (ex_cert False [])"]
  by (simp add: ex_defs evaluateHeaders_def carryOverJWTAssertion_def lookup_ok_def
      NewRuleResult_def RuleResult_unset_def)

subsection \<open>Faults of the rule engine\<close>

lemma safeEval_cases:
  "safeEval q options =
     (case q options of
        Returns (rs, err) \<Rightarrow> (rs, err)
      | Panics None \<Rightarrow> ([], None)
      | Panics (Some v) \<Rightarrow> ([], Some (Errorf_v v)))"
  by (simp add: safeEval_def recover_def Let_def split: outcome.splits option.splits)


subsection \<open>Errors and verdicts of client-certificate validation\<close>

text \<open>
  C4 as the spec states it: a certificate that validation finds invalid (the boolean
  false, no error) is passed to the PolicyEvaluator and yields a Deny decision. The
  decision is the PolicyEvaluator's own, and whether an invalid certificate is denied
  depends on its rules (the default deny rule is an option of the configuration). Below,
  no certificate is presented, validation answers false, and the route's evaluator allows
  the request: the result has Allow = true and Deny unset.
\<close>

theorem invalid_certificate_counterexample:
  "isValidClientCertificate ex_deps ''GLOBAL'' [] (ex_cert False []) () = Inr False
   \<and> returned (Evaluate ex_deps (ex_evaluator [7 \<mapsto> ex_allow_all] ex_headers_ok) PolicyUnit
                 (ex_request False (Some \<lparr>TLSDownstreamClientCA = ''''\<rparr>) ''/'' ''s1''
                    Map.empty (ex_cert False [])))
       = Inr \<lparr>Result.Allow = \<lparr>Value = True, Reasons = [ReasonOther ''accept'']\<rparr>,
              Deny = \<lparr>Value = False, Reasons = []\<rparr>,
              Headers = [''X-Pomerium-Jwt-Assertion'' \<mapsto> [''signed'']],
              Traces = [''trace-1'']\<rparr>"
  by (simp add: Evaluate_returned ex_defs unit_defs)

text \<open>
  C4, amended: for every non-internal request with a registered policy whose client CA
  resolves, (a) if client-certificate validation returns an error, the PolicyEvaluator is
  not called and Evaluate returns an error and no result: the validation error wrapped as
  "authorize: error validating client certificate", or the error of the headers unit when
  that unit failed first; (b) if validation returns the boolean false, that is no error:
  the policy unit calls the PolicyEvaluator with isValidClientCertificate = false and its
  outcome is what the PolicyEvaluator returns for that request.
\<close>

theorem certificate_validation_outcomes:
  assumes "\<not> IsInternal req" and "Policy req = Some p" and "RouteID d p = Inr rid"
    and "policyEvaluators e rid = Some pe" and "getClientCA d e (Some p) = Inr ca"
  shows "(isValidClientCertificate d ca (clientCRL e)
            (ClientCertificate (Request.HTTP req)) (clientCertConstraints e) = Inl verr
          \<longrightarrow> filter is_policy_call (policy_calls (Evaluate d e first req)) = []
            \<and> returned (Evaluate d e first req) =
                Inl (case snd (evaluateHeaders d e req) of
                       Inl herr \<Rightarrow>
                         (case first of
                            PolicyUnit \<Rightarrow>
                              Errorf_w ''authorize: error validating client certificate: '' verr
                          | HeadersUnit \<Rightarrow> herr)
                     | Inr ho \<Rightarrow>
                         Errorf_w ''authorize: error validating client certificate: '' verr))
       \<and> (isValidClientCertificate d ca (clientCRL e)
            (ClientCertificate (Request.HTTP req)) (clientCertConstraints e) = Inr False
          \<longrightarrow> policy_unit d e req =
                ([Call_isValidClientCertificate ca (clientCRL e)
                    (ClientCertificate (Request.HTTP req)) (clientCertConstraints e),
                  Call_PolicyEvaluator_Evaluate rid
                    \<lparr>PolicyRequest.HTTP = Request.HTTP req, Session = Request.Session req,
                     IsValidClientCertificate = False\<rparr>],
                 pe \<lparr>PolicyRequest.HTTP = Request.HTTP req, Session = Request.Session req,
                     IsValidClientCertificate = False\<rparr>))"
proof (intro conjI impI)
  note pu = policy_unit_registered [OF assms(1-4)]
  {
    assume v: "isValidClientCertificate d ca (clientCRL e)
            (ClientCertificate (Request.HTTP req)) (clientCertConstraints e) = Inl verr"
    have pu': "policy_unit d e req =
        ([Call_isValidClientCertificate ca (clientCRL e)
            (ClientCertificate (Request.HTTP req)) (clientCertConstraints e)],
         Inl (Errorf_w ''authorize: error validating client certificate: '' verr))"
      by (simp add: pu assms(5) v)
    show "filter is_policy_call (policy_calls (Evaluate d e first req)) = []"
      by (simp add: Evaluate_policy_calls pu')
    show "returned (Evaluate d e first req) =
                Inl (case snd (evaluateHeaders d e req) of
                       Inl herr \<Rightarrow>
                         (case first of
                            PolicyUnit \<Rightarrow>
                              Errorf_w ''authorize: error validating client certificate: '' verr
                          | HeadersUnit \<Rightarrow> herr)
                     | Inr ho \<Rightarrow>
                         Errorf_w ''authorize: error validating client certificate: '' verr)"
      by (simp add: Evaluate_returned pu' errgroup_Wait_policy_error)
  }
  {
    assume v: "isValidClientCertificate d ca (clientCRL e)
            (ClientCertificate (Request.HTTP req)) (clientCertConstraints e) = Inr False"
    show "policy_unit d e req =
                ([Call_isValidClientCertificate ca (clientCRL e)
                    (ClientCertificate (Request.HTTP req)) (clientCertConstraints e),
                  Call_PolicyEvaluator_Evaluate rid
                    \<lparr>PolicyRequest.HTTP = Request.HTTP req, Session = Request.Session req,
                     IsValidClientCertificate = False\<rparr>],
                 pe \<lparr>PolicyRequest.HTTP = Request.HTTP req, Session = Request.Session req,
                     IsValidClientCertificate = False\<rparr>)"
      by (simp add: pu assms(5) v)
  }
qed

theorem certificate_validation_outcomes_witness:
  "isValidClientCertificate ex_deps ''GLOBAL'' [] (ex_cert True ''garbage'') ()
     = Inl (ErrorString ''malformed certificate'')
   \<and> returned (Evaluate ex_deps (ex_evaluator [7 \<mapsto> ex_allow_all] ex_headers_ok) HeadersUnit
        (ex_request False (Some \<lparr>TLSDownstreamClientCA = ''''\<rparr>) ''/'' ''s1'' Map.empty
           (ex_cert True ''garbage'')))
     = Inl (Errorf_w ''authorize: error validating client certificate: ''
              (ErrorString ''malformed certificate''))
   \<and> isValidClientCertificate ex_deps ''GLOBAL'' [] (ex_cert False []) () = Inr False
   \<and> snd (policy_unit ex_deps (ex_evaluator [7 \<mapsto> ex_policy_fails] ex_headers_ok)
        (ex_request False (Some \<lparr>TLSDownstreamClientCA = ''''\<rparr>) ''/'' ''s1'' Map.empty
           (ex_cert False [])))
     = Inl (ErrorString ''rego: eval fault'')"
  using
    certificate_validation_outcomes [where d = ex_deps
      and e = "ex_evaluator [7 \<mapsto> ex_allow_all] ex_headers_ok" and first = HeadersUnit
      and p = "\<lparr>TLSDownstreamClientCA = ''''\<rparr>" and rid = 7 and pe = ex_allow_all
      and ca = "''GLOBAL''" and verr = "ErrorString ''malformed certificate''"
      and req = "ex_request False (Some \<lparr>TLSDownstreamClientCA = ''''\<rparr>) ''/'' ''s1'' Map.empty
           (ex_cert True ''garbage'')"]
    certificate_validation_outcomes [where d = ex_deps
      and e = "ex_evaluator [7 \<mapsto> ex_policy_fails] ex_headers_ok" and first = HeadersUnit
      and p = "\<lparr>TLSDownstreamClientCA = ''''\<rparr>" and rid = 7 and pe = ex_policy_fails
      and ca = "''GLOBAL''" and verr = "ErrorString ''unused''"
      and req = "ex_request False (Some \<lparr>TLSDownstreamClientCA = ''''\<rparr>) ''/'' ''s1'' Map.empty
           (ex_cert False [])"]
  by (simp add: ex_defs getClientCA_def evaluateHeaders_def carryOverJWTAssertion_def
      lookup_ok_def)

subsection \<open>Joining the two units\<close>

text \<open>
  C5 as the spec states it: the Traces field of the result comes from the output of the
  headers unit. The two evaluations below have the same request and the same output of
  the headers unit, and their results differ in Traces: one route evaluator reports a
  trace and the other does not.
\<close>

theorem traces_counterexample:
  "snd (evaluateHeaders ex_deps (ex_evaluator [7 \<mapsto> ex_allow_all] ex_headers_ok)
          (ex_request False (Some \<lparr>TLSDownstreamClientCA = ''''\<rparr>) ''/'' ''s1'' Map.empty
             (ex_cert True ''leaf'')))
     = snd (evaluateHeaders ex_deps (ex_evaluator [7 \<mapsto> ex_allow_all_untraced] ex_headers_ok)
          (ex_request False (Some \<lparr>TLSDownstreamClientCA = ''''\<rparr>) ''/'' ''s1'' Map.empty
             (ex_cert True ''leaf'')))
   \<and> map_sum id Result.Traces
        (returned (Evaluate ex_deps (ex_evaluator [7 \<mapsto> ex_allow_all] ex_headers_ok) PolicyUnit
           (ex_request False (Some \<lparr>TLSDownstreamClientCA = ''''\<rparr>) ''/'' ''s1'' Map.empty
              (ex_cert True ''leaf''))))
     = Inr [''trace-1'']
   \<and> map_sum id Result.Traces
        (returned (Evaluate ex_deps (ex_evaluator [7 \<mapsto> ex_allow_all_untraced] ex_headers_ok)
           PolicyUnit
           (ex_request False (Some \<lparr>TLSDownstreamClientCA = ''''\<rparr>) ''/'' ''s1'' Map.empty
              (ex_cert True ''leaf''))))
     = Inr []"
  by (simp add: Evaluate_returned ex_defs unit_defs)

text \<open>
  C5, amended: for every request Evaluate runs the policy unit and the headers unit and
  joins them. If exactly one unit fails, Evaluate returns its error; if both fail, it
  returns the error of the unit that failed first; in both cases there is no result.
  Otherwise it returns a result whose Allow, Deny and Traces fields are those of the
  policy unit's output and whose Headers field is that of the headers unit's output.
\<close>

theorem evaluate_joins_units:
  "policy_calls (Evaluate d e first req) = fst (policy_unit d e req)
   \<and> headers_calls (Evaluate d e first req) = fst (evaluateHeaders d e req)
   \<and> (snd (policy_unit d e req) = Inr po \<and> snd (evaluateHeaders d e req) = Inr ho
        \<longrightarrow> returned (Evaluate d e first req) =
              Inr \<lparr>Result.Allow = PolicyResponse.Allow po,
                   Deny = PolicyResponse.Deny po,
                   Headers = HeadersResponse.Headers ho,
                   Traces = PolicyResponse.Traces po\<rparr>)
   \<and> (snd (policy_unit d e req) = Inl perr \<and> snd (evaluateHeaders d e req) = Inr ho
        \<longrightarrow> returned (Evaluate d e first req) = Inl perr)
   \<and> (snd (policy_unit d e req) = Inr po \<and> snd (evaluateHeaders d e req) = Inl herr
        \<longrightarrow> returned (Evaluate d e first req) = Inl herr)
   \<and> (snd (policy_unit d e req) = Inl perr \<and> snd (evaluateHeaders d e req) = Inl herr
        \<longrightarrow> returned (Evaluate d e first req) =
              Inl (case first of PolicyUnit \<Rightarrow> perr | HeadersUnit \<Rightarrow> herr))"
  by (simp add: Evaluate_policy_calls Evaluate_headers_calls Evaluate_returned
      errgroup_Wait_def)

theorem evaluate_joins_units_witness:
  "returned (Evaluate ex_deps (ex_evaluator [7 \<mapsto> ex_allow_all] ex_headers_ok) PolicyUnit
      (ex_request False (Some \<lparr>TLSDownstreamClientCA = ''''\<rparr>) ''/'' ''s1'' Map.empty
         (ex_cert True ''leaf'')))
     = Inr \<lparr>Result.Allow = \<lparr>Value = True, Reasons = [ReasonOther ''accept'']\<rparr>,
            Deny = \<lparr>Value = False, Reasons = []\<rparr>,
            Headers = [''X-Pomerium-Jwt-Assertion'' \<mapsto> [''signed'']],
            Traces = [''trace-1'']\<rparr>
   \<and> returned (Evaluate ex_deps (ex_evaluator [7 \<mapsto> ex_policy_fails] ex_headers_ok) PolicyUnit
      (ex_request False (Some \<lparr>TLSDownstreamClientCA = ''''\<rparr>) ''/'' ''s1'' Map.empty
         (ex_cert True ''leaf'')))
     = Inl (ErrorString ''rego: eval fault'')
   \<and> returned (Evaluate ex_deps (ex_evaluator [7 \<mapsto> ex_allow_all] ex_headers_fail) PolicyUnit
      (ex_request False (Some \<lparr>TLSDownstreamClientCA = ''''\<rparr>) ''/'' ''s1'' Map.empty
         (ex_cert True ''leaf'')))
     = Inl (ErrorString ''headers: eval fault'')
   \<and> returned (Evaluate ex_deps (ex_evaluator [7 \<mapsto> ex_policy_fails] ex_headers_fail) PolicyUnit
      (ex_request False (Some \<lparr>TLSDownstreamClientCA = ''''\<rparr>) ''/'' ''s1'' Map.empty
         (ex_cert True ''leaf'')))
     = Inl (ErrorString ''rego: eval fault'')
   \<and> returned (Evaluate ex_deps (ex_evaluator [7 \<mapsto> ex_policy_fails] ex_headers_fail) HeadersUnit
      (ex_request False (Some \<lparr>TLSDownstreamClientCA = ''''\<rparr>) ''/'' ''s1'' Map.empty
         (ex_cert True ''leaf'')))
     = Inl (ErrorString ''headers: eval fault'')"
proof -
  let ?req = "ex_request False (Some \<lparr>TLSDownstreamClientCA = ''''\<rparr>) ''/'' ''s1'' Map.empty
         (ex_cert True ''leaf'')"
  let ?po = "\<lparr>PolicyResponse.Allow = \<lparr>Value = True, Reasons = [ReasonOther ''accept'']\<rparr>,
              Deny = \<lparr>Value = False, Reasons = []\<rparr>, Traces = [''trace-1'']\<rparr>"
  let ?ho = "\<lparr>HeadersResponse.Headers = [''X-Pomerium-Jwt-Assertion'' \<mapsto> [''signed'']]\<rparr>"
  let ?perr = "ErrorString ''rego: eval fault''"
  let ?herr = "ErrorString ''headers: eval fault''"
  have p_ok: "\<And>he. snd (policy_unit ex_deps (ex_evaluator [7 \<mapsto> ex_allow_all] he) ?req) = Inr ?po"
    by (simp add: ex_defs unit_defs)
  have p_bad: "\<And>he. snd (policy_unit ex_deps (ex_evaluator [7 \<mapsto> ex_policy_fails] he) ?req)
      = Inl ?perr"
    by (simp add: ex_defs unit_defs)
  have h_ok: "\<And>pes. snd (evaluateHeaders ex_deps (ex_evaluator pes ex_headers_ok) ?req) = Inr ?ho"
    by (simp add: ex_defs unit_defs)
  have h_bad: "\<And>pes. snd (evaluateHeaders ex_deps (ex_evaluator pes ex_headers_fail) ?req)
      = Inl ?herr"
    by (simp add: ex_defs unit_defs)
  show ?thesis
    using
      evaluate_joins_units [where d = ex_deps and req = ?req and first = PolicyUnit
        and e = "ex_evaluator [7 \<mapsto> ex_allow_all] ex_headers_ok"
        and po = ?po and ho = ?ho and perr = ?perr and herr = ?herr]
      evaluate_joins_units [where d = ex_deps and req = ?req and first = PolicyUnit
        and e = "ex_evaluator [7 \<mapsto> ex_policy_fails] ex_headers_ok"
        and po = ?po and ho = ?ho and perr = ?perr and herr = ?herr]
      evaluate_joins_units [where d = ex_deps and req = ?req and first = PolicyUnit
        and e = "ex_evaluator [7 \<mapsto> ex_allow_all] ex_headers_fail"
        and po = ?po and ho = ?ho and perr = ?perr and herr = ?herr]
      evaluate_joins_units [where d = ex_deps and req = ?req and first = PolicyUnit
        and e = "ex_evaluator [7 \<mapsto> ex_policy_fails] ex_headers_fail"
        and po = ?po and ho = ?ho and perr = ?perr and herr = ?herr]
      evaluate_joins_units [where d = ex_deps and req = ?req and first = HeadersUnit
        and e = "ex_evaluator [7 \<mapsto> ex_policy_fails] ex_headers_fail"
        and po = ?po and ho = ?ho and perr = ?perr and herr = ?herr]
    by (simp add: p_ok p_bad h_ok h_bad)
qed

subsection \<open>Carrying the inbound assertion over\<close>

text \<open>
  C6: once the headers evaluator has produced its headers, evaluateHeaders passes them
  through carryOverJWTAssertion with the inbound request headers. If the inbound
  assertion-for header is present with a non-empty value, that value is added, as it is,
  to the outbound assertion-for header, whatever the inbound plain assertion header
  holds; otherwise, if the inbound plain assertion header is present with a non-empty
  value, that value is added to the outbound assertion-for header; otherwise the
  outbound headers are left as they are.
\<close>

theorem assertion_carried_over:
  "(src (CanonicalHeaderKey d (HeaderPomeriumJWTAssertionFor d)) = Some v \<and> v \<noteq> ''''
      \<longrightarrow> carryOverJWTAssertion d dst src =
            Header_Add d dst (CanonicalHeaderKey d (HeaderPomeriumJWTAssertionFor d)) v)
   \<and> ((src (CanonicalHeaderKey d (HeaderPomeriumJWTAssertionFor d)) = None
          \<or> src (CanonicalHeaderKey d (HeaderPomeriumJWTAssertionFor d)) = Some '''')
        \<and> src (CanonicalHeaderKey d (HeaderPomeriumJWTAssertion d)) = Some w \<and> w \<noteq> ''''
      \<longrightarrow> carryOverJWTAssertion d dst src =
            Header_Add d dst (CanonicalHeaderKey d (HeaderPomeriumJWTAssertionFor d)) w)
   \<and> ((src (CanonicalHeaderKey d (HeaderPomeriumJWTAssertionFor d)) = None
          \<or> src (CanonicalHeaderKey d (HeaderPomeriumJWTAssertionFor d)) = Some '''')
        \<and> (src (CanonicalHeaderKey d (HeaderPomeriumJWTAssertion d)) = None
          \<or> src (CanonicalHeaderKey d (HeaderPomeriumJWTAssertion d)) = Some '''')
      \<longrightarrow> carryOverJWTAssertion d dst src = dst)
   \<and> Header_Add d dst k v (CanonicalMIMEHeaderKey d k) =
        Some ((case dst (CanonicalMIMEHeaderKey d k) of None \<Rightarrow> [] | Some vs \<Rightarrow> vs) @ [v])
   \<and> (headersEvaluators e
         ((NewHeadersRequestFromPolicy d (Policy req) (Request.HTTP req))
            \<lparr>HeadersRequest.Session := Request.Session req\<rparr>) = Inr res
      \<longrightarrow> snd (evaluateHeaders d e req) =
            Inr (res\<lparr>HeadersResponse.Headers :=
                       carryOverJWTAssertion d (HeadersResponse.Headers res)
                         (RequestHTTP.Headers (Request.HTTP req))\<rparr>))"
proof (intro conjI impI)
  assume "src (CanonicalHeaderKey d (HeaderPomeriumJWTAssertionFor d)) = Some v \<and> v \<noteq> ''''"
  then show "carryOverJWTAssertion d dst src =
            Header_Add d dst (CanonicalHeaderKey d (HeaderPomeriumJWTAssertionFor d)) v"
    by (simp add: carryOverJWTAssertion_def lookup_ok_def Let_def)
next
  assume "(src (CanonicalHeaderKey d (HeaderPomeriumJWTAssertionFor d)) = None
          \<or> src (CanonicalHeaderKey d (HeaderPomeriumJWTAssertionFor d)) = Some '''')
        \<and> src (CanonicalHeaderKey d (HeaderPomeriumJWTAssertion d)) = Some w \<and> w \<noteq> ''''"
  then show "carryOverJWTAssertion d dst src =
            Header_Add d dst (CanonicalHeaderKey d (HeaderPomeriumJWTAssertionFor d)) w"
    by (auto simp: carryOverJWTAssertion_def lookup_ok_def Let_def)
next
  assume "(src (CanonicalHeaderKey d (HeaderPomeriumJWTAssertionFor d)) = None
          \<or> src (CanonicalHeaderKey d (HeaderPomeriumJWTAssertionFor d)) = Some '''')
        \<and> (src (CanonicalHeaderKey d (HeaderPomeriumJWTAssertion d)) = None
          \<or> src (CanonicalHeaderKey d (HeaderPomeriumJWTAssertion d)) = Some '''')"
  then show "carryOverJWTAssertion d dst src = dst"
    by (auto simp: carryOverJWTAssertion_def lookup_ok_def Let_def)
next
  show "Header_Add d dst k v (CanonicalMIMEHeaderKey d k) =
        Some ((case dst (CanonicalMIMEHeaderKey d k) of None \<Rightarrow> [] | Some vs \<Rightarrow> vs) @ [v])"
    by (simp add: Header_Add_def)
next
  assume "headersEvaluators e
         ((NewHeadersRequestFromPolicy d (Policy req) (Request.HTTP req))
            \<lparr>HeadersRequest.Session := Request.Session req\<rparr>) = Inr res"
  then show "snd (evaluateHeaders d e req) =
            Inr (res\<lparr>HeadersResponse.Headers :=
                       carryOverJWTAssertion d (HeadersResponse.Headers res)
                         (RequestHTTP.Headers (Request.HTTP req))\<rparr>)"
    by (simp add: evaluateHeaders_result)
qed

theorem assertion_carried_over_witness:
  "carryOverJWTAssertion ex_deps Map.empty
      [''X-Pomerium-Jwt-Assertion-For'' \<mapsto> ''A'', ''X-Pomerium-Jwt-Assertion'' \<mapsto> ''B'']
     = [''X-Pomerium-Jwt-Assertion-For'' \<mapsto> [''A'']]
   \<and> carryOverJWTAssertion ex_deps Map.empty [''X-Pomerium-Jwt-Assertion'' \<mapsto> ''B'']
     = [''X-Pomerium-Jwt-Assertion-For'' \<mapsto> [''B'']]
   \<and> carryOverJWTAssertion ex_deps [''X-Pomerium-Jwt-Assertion'' \<mapsto> [''signed'']]
        [''X-Pomerium-Jwt-Assertion-For'' \<mapsto> '''', ''Accept'' \<mapsto> ''text/html'']
     = [''X-Pomerium-Jwt-Assertion'' \<mapsto> [''signed'']]
   \<and> snd (evaluateHeaders ex_deps (ex_evaluator Map.empty ex_headers_ok)
        (ex_request False None ''/'' ''s1'' [''X-Pomerium-Jwt-Assertion'' \<mapsto> ''B'']
           (ex_cert False [])))
     = Inr \<lparr>HeadersResponse.Headers =
              [''X-Pomerium-Jwt-Assertion'' \<mapsto> [''signed''],
               ''X-Pomerium-Jwt-Assertion-For'' \<mapsto> [''B'']]\<rparr>"
proof -
  have a: "carryOverJWTAssertion ex_deps Map.empty
      [''X-Pomerium-Jwt-Assertion-For'' \<mapsto> ''A'', ''X-Pomerium-Jwt-Assertion'' \<mapsto> ''B'']
     = [''X-Pomerium-Jwt-Assertion-For'' \<mapsto> [''A'']]"
    using assertion_carried_over [where d = ex_deps and dst = Map.empty and v = "''A''"
        and w = "''B''" and k = "''X-Pomerium-Jwt-Assertion-For''"
        and e = "ex_evaluator Map.empty ex_headers_ok"
        and req = "ex_request False None ''/'' ''s1'' [''X-Pomerium-Jwt-Assertion'' \<mapsto> ''B'']
           (ex_cert False [])"
        and res = "\<lparr>HeadersResponse.Headers = [''X-Pomerium-Jwt-Assertion'' \<mapsto> [''signed'']]\<rparr>"
        and src = "[''X-Pomerium-Jwt-Assertion-For'' \<mapsto> ''A'',
                    ''X-Pomerium-Jwt-Assertion'' \<mapsto> ''B'']"]
    by (simp add: ex_deps_def ex_canonical_def Header_Add_def)
  have b: "carryOverJWTAssertion ex_deps Map.empty [''X-Pomerium-Jwt-Assertion'' \<mapsto> ''B'']
     = [''X-Pomerium-Jwt-Assertion-For'' \<mapsto> [''B'']]"
    using assertion_carried_over [where d = ex_deps and dst = Map.empty and v = "''A''"
        and w = "''B''" and k = "''X-Pomerium-Jwt-Assertion-For''"
        and e = "ex_evaluator Map.empty ex_headers_ok"
        and req = "ex_request False None ''/'' ''s1'' [''X-Pomerium-Jwt-Assertion'' \<mapsto> ''B'']
           (ex_cert False [])"
        and res = "\<lparr>HeadersResponse.Headers = [''X-Pomerium-Jwt-Assertion'' \<mapsto> [''signed'']]\<rparr>"
        and src = "[''X-Pomerium-Jwt-Assertion'' \<mapsto> ''B'']"]
    by (simp add: ex_deps_def ex_canonical_def Header_Add_def)
  have c: "carryOverJWTAssertion ex_deps [''X-Pomerium-Jwt-Assertion'' \<mapsto> [''signed'']]
        [''X-Pomerium-Jwt-Assertion-For'' \<mapsto> '''', ''Accept'' \<mapsto> ''text/html'']
     = [''X-Pomerium-Jwt-Assertion'' \<mapsto> [''signed'']]"
    using assertion_carried_over [where d = ex_deps
        and dst = "[''X-Pomerium-Jwt-Assertion'' \<mapsto> [''signed'']]" and v = "''A''"
        and w = "''B''" and k = "''X-Pomerium-Jwt-Assertion-For''"
        and e = "ex_evaluator Map.empty ex_headers_ok"
        and req = "ex_request False None ''/'' ''s1'' [''X-Pomerium-Jwt-Assertion'' \<mapsto> ''B'']
           (ex_cert False [])"
        and res = "\<lparr>HeadersResponse.Headers = [''X-Pomerium-Jwt-Assertion'' \<mapsto> [''signed'']]\<rparr>"
        and src = "[''X-Pomerium-Jwt-Assertion-For'' \<mapsto> '''', ''Accept'' \<mapsto> ''text/html'']"]
    by (simp add: ex_deps_def ex_canonical_def Header_Add_def)
  have d: "snd (evaluateHeaders ex_deps (ex_evaluator Map.empty ex_headers_ok)
        (ex_request False None ''/'' ''s1'' [''X-Pomerium-Jwt-Assertion'' \<mapsto> ''B'']
           (ex_cert False [])))
     = Inr \<lparr>HeadersResponse.Headers =
              [''X-Pomerium-Jwt-Assertion'' \<mapsto> [''signed''],
               ''X-Pomerium-Jwt-Assertion-For'' \<mapsto> [''B'']]\<rparr>"
    using assertion_carried_over [where d = ex_deps
        and dst = "[''X-Pomerium-Jwt-Assertion'' \<mapsto> [''signed'']]" and v = "''A''"
        and w = "''B''" and k = "''X-Pomerium-Jwt-Assertion-For''"
        and e = "ex_evaluator Map.empty ex_headers_ok"
        and req = "ex_request False None ''/'' ''s1'' [''X-Pomerium-Jwt-Assertion'' \<mapsto> ''B'']
           (ex_cert False [])"
        and res = "\<lparr>HeadersResponse.Headers = [''X-Pomerium-Jwt-Assertion'' \<mapsto> [''signed'']]\<rparr>"
        and src = "[''X-Pomerium-Jwt-Assertion'' \<mapsto> ''B'']"]
    by (simp add: ex_defs Header_Add_def)
  from a b c d show ?thesis by simp
qed

subsection \<open>The signing key at construction\<close>

text \<open>
  C7: at construction, when the configuration carries no signing key bytes a fresh
  signing key is generated, encoded and decoded into a JWK; otherwise the supplied bytes
  are decoded. If the supplied bytes do not decode into a private JWK, New fails with an
  error and leaves the store exactly as it was. When a JWK is obtained, it becomes the
  store's signing key.
\<close>

theorem signing_key_at_construction:
  "(signingKey cfg = []
      \<longrightarrow> getJWK b cfg =
            (case NewSigningKey b of
               Inl err \<Rightarrow> Inl (Errorf_w ''couldn't generate signing key: '' err)
             | Inr key \<Rightarrow>
                 (case EncodePrivateKey b key of
                    Inl err \<Rightarrow> Inl (Errorf_w ''bad signing key: '' err)
                  | Inr bs \<Rightarrow>
                      (case PrivateJWKFromBytes b bs of
                         Inl err \<Rightarrow> Inl (Errorf_w ''couldn't generate signing key: '' err)
                       | Inr jwk \<Rightarrow> Inr jwk))))
   \<and> (signingKey cfg \<noteq> []
      \<longrightarrow> getJWK b cfg =
            (case PrivateJWKFromBytes b (signingKey cfg) of
               Inl err \<Rightarrow> Inl (Errorf_w ''couldn't generate signing key: '' err)
             | Inr jwk \<Rightarrow> Inr jwk))
   \<and> (signingKey (getConfig c0 j0 options) \<noteq> []
        \<and> PrivateJWKFromBytes b (signingKey (getConfig c0 j0 options)) = Inl err
      \<longrightarrow> New d b st c0 j0 options =
            (Inl (Errorf_w ''authorize: couldn't create signer: ''
                    (Errorf_w ''couldn't generate signing key: '' err)), st))
   \<and> (getJWK b (getConfig c0 j0 options) = Inr jwk
      \<longrightarrow> store_SigningKey (snd (New d b st c0 j0 options)) = Some jwk)"
proof (intro conjI impI)
  assume "signingKey cfg = []"
  then show "getJWK b cfg =
            (case NewSigningKey b of
               Inl err \<Rightarrow> Inl (Errorf_w ''couldn't generate signing key: '' err)
             | Inr key \<Rightarrow>
                 (case EncodePrivateKey b key of
                    Inl err \<Rightarrow> Inl (Errorf_w ''bad signing key: '' err)
                  | Inr bs \<Rightarrow>
                      (case PrivateJWKFromBytes b bs of
                         Inl err \<Rightarrow> Inl (Errorf_w ''couldn't generate signing key: '' err)
                       | Inr jwk \<Rightarrow> Inr jwk)))"
    by (simp add: getJWK_def split: sum.splits)
next
  assume "signingKey cfg \<noteq> []"
  then show "getJWK b cfg =
            (case PrivateJWKFromBytes b (signingKey cfg) of
               Inl err \<Rightarrow> Inl (Errorf_w ''couldn't generate signing key: '' err)
             | Inr jwk \<Rightarrow> Inr jwk)"
    by (simp add: getJWK_def)
next
  assume "signingKey (getConfig c0 j0 options) \<noteq> []
        \<and> PrivateJWKFromBytes b (signingKey (getConfig c0 j0 options)) = Inl err"
  then have "getJWK b (getConfig c0 j0 options) =
      Inl (Errorf_w ''couldn't generate signing key: '' err)"
    by (simp add: getJWK_def)
  then show "New d b st c0 j0 options =
            (Inl (Errorf_w ''authorize: couldn't create signer: ''
                    (Errorf_w ''couldn't generate signing key: '' err)), st)"
    by (simp add: New_def updateStore_def Let_def)
next
  assume "getJWK b (getConfig c0 j0 options) = Inr jwk"
  then show "store_SigningKey (snd (New d b st c0 j0 options)) = Some jwk"
    by (simp add: New_def updateStore_def Let_def UpdateSigningKey_def split: sum.splits)
qed

theorem signing_key_at_construction_witness:
  "getJWK ex_builders (getConfig () () [] :: (unit, unit, unit) evaluatorConfig)
     = Inr ''JWK:fresh-key''
   \<and> getJWK ex_builders
        (getConfig () () [WithSigningKey ''PEM:abc''] :: (unit, unit, unit) evaluatorConfig)
     = Inr ''JWK:abc''
   \<and> New ex_deps ex_builders ex_store () () [WithSigningKey ''junk'']
     = (Inl (Errorf_w ''authorize: couldn't create signer: ''
               (Errorf_w ''couldn't generate signing key: ''
                  (ErrorString ''unsupported key type''))),
        ex_store)
   \<and> store_SigningKey (snd (New ex_deps ex_builders ex_store () () [WithSigningKey ''PEM:abc'']))
     = Some ''JWK:abc''"
proof -
  have cfg0: "signingKey (getConfig () () [] :: (unit, unit, unit) evaluatorConfig) = []"
    by (simp add: getConfig_def evaluatorConfig_zero_def)
  have cfg1: "signingKey
      (getConfig () () [WithSigningKey ''PEM:abc''] :: (unit, unit, unit) evaluatorConfig)
      = ''PEM:abc''"
    by (simp add: getConfig_def evaluatorConfig_zero_def WithSigningKey_def)
  have cfg2: "signingKey
      (getConfig () () [WithSigningKey ''junk''] :: (unit, unit, unit) evaluatorConfig)
      = ''junk''"
    by (simp add: getConfig_def evaluatorConfig_zero_def WithSigningKey_def)
  have a: "getJWK ex_builders (getConfig () () [] :: (unit, unit, unit) evaluatorConfig)
     = Inr ''JWK:fresh-key''"
    using signing_key_at_construction [where b = ex_builders and d = ex_deps and st = ex_store
        and cfg = "getConfig () () [] :: (unit, unit, unit) evaluatorConfig"
        and ?c0.0 = "()" and ?j0.0 = "()" and options = "[WithSigningKey ''junk'']"
        and err = "ErrorString ''unsupported key type''" and jwk = "''JWK:abc''"]
    by (simp add: cfg0 ex_builders_def)
  have b: "getJWK ex_builders
        (getConfig () () [WithSigningKey ''PEM:abc''] :: (unit, unit, unit) evaluatorConfig)
     = Inr ''JWK:abc''"
    using signing_key_at_construction [where b = ex_builders and d = ex_deps and st = ex_store
        and cfg = "getConfig () () [WithSigningKey ''PEM:abc''] :: (unit, unit, unit) evaluatorConfig"
        and ?c0.0 = "()" and ?j0.0 = "()" and options = "[WithSigningKey ''junk'']"
        and err = "ErrorString ''unsupported key type''" and jwk = "''JWK:abc''"]
    by (simp add: cfg1 ex_builders_def)
  have c: "New ex_deps ex_builders ex_store () () [WithSigningKey ''junk'']
     = (Inl (Errorf_w ''authorize: couldn't create signer: ''
               (Errorf_w ''couldn't generate signing key: ''
                  (ErrorString ''unsupported key type''))),
        ex_store)"
    using signing_key_at_construction [where b = ex_builders and d = ex_deps and st = ex_store
        and cfg = "getConfig () () [] :: (unit, unit, unit) evaluatorConfig"
        and ?c0.0 = "()" and ?j0.0 = "()" and options = "[WithSigningKey ''junk'']"
        and err = "ErrorString ''unsupported key type''" and jwk = "''JWK:abc''"]
    by (simp add: cfg2 ex_builders_def)
  have d: "store_SigningKey
      (snd (New ex_deps ex_builders ex_store () () [WithSigningKey ''PEM:abc''])) = Some ''JWK:abc''"
    using b signing_key_at_construction [where b = ex_builders and d = ex_deps and st = ex_store
        and cfg = "getConfig () () [] :: (unit, unit, unit) evaluatorConfig"
        and ?c0.0 = "()" and ?j0.0 = "()" and options = "[WithSigningKey ''PEM:abc'']"
        and err = "ErrorString ''unsupported key type''" and jwk = "''JWK:abc''"]
    by simp
  from a b c d show ?thesis by simp
qed

subsection \<open>The client CA in effect\<close>

text \<open>
  C8: for every non-internal request with a registered policy, client-certificate
  validation is run against the base64-decoded downstream client CA of the policy when
  that field is not empty, and against the evaluator's global client CA when it is
  empty: the policy unit's calls and output, and what Evaluate returns, are those
  obtained from the validator's answer at that CA. When the field is not empty and does
  not decode, no validation is run and the policy unit fails with the decoding error;
  the global CA is not used in its place.
\<close>

theorem effective_client_ca:
  assumes "\<not> IsInternal req" and "Policy req = Some p" and "RouteID d p = Inr rid"
    and "policyEvaluators e rid = Some pe"
  shows "(TLSDownstreamClientCA p \<noteq> '''' \<and> DecodeString d (TLSDownstreamClientCA p) = Inr bs
          \<longrightarrow> getClientCA d e (Some p) = Inr bs
            \<and> filter is_validation_call (policy_calls (Evaluate d e first req)) =
                [Call_isValidClientCertificate bs (clientCRL e)
                   (ClientCertificate (Request.HTTP req)) (clientCertConstraints e)]
            \<and> policy_unit d e req =
                (case isValidClientCertificate d bs (clientCRL e)
                        (ClientCertificate (Request.HTTP req)) (clientCertConstraints e) of
                   Inl verr \<Rightarrow>
                     ([Call_isValidClientCertificate bs (clientCRL e)
                         (ClientCertificate (Request.HTTP req)) (clientCertConstraints e)],
                      Inl (Errorf_w ''authorize: error validating client certificate: '' verr))
                 | Inr valid \<Rightarrow>
                     ([Call_isValidClientCertificate bs (clientCRL e)
                         (ClientCertificate (Request.HTTP req)) (clientCertConstraints e),
                       Call_PolicyEvaluator_Evaluate rid
                         \<lparr>PolicyRequest.HTTP = Request.HTTP req,
                          Session = Request.Session req,
                          IsValidClientCertificate = valid\<rparr>],
                      pe \<lparr>PolicyRequest.HTTP = Request.HTTP req,
                          Session = Request.Session req,
                          IsValidClientCertificate = valid\<rparr>))
            \<and> returned (Evaluate d e first req) =
                (case errgroup_Wait first
                        (case isValidClientCertificate d bs (clientCRL e)
                                (ClientCertificate (Request.HTTP req))
                                (clientCertConstraints e) of
                           Inl verr \<Rightarrow>
                             Inl (Errorf_w
                                    ''authorize: error validating client certificate: '' verr)
                         | Inr valid \<Rightarrow>
                             pe \<lparr>PolicyRequest.HTTP = Request.HTTP req,
                                 Session = Request.Session req,
                                 IsValidClientCertificate = valid\<rparr>)
                        (snd (evaluateHeaders d e req)) of
                   Inl err \<Rightarrow> Inl err
                 | Inr (po, ho) \<Rightarrow>
                     Inr \<lparr>Result.Allow = PolicyResponse.Allow po,
                          Deny = PolicyResponse.Deny po,
                          Headers = HeadersResponse.Headers ho,
                          Traces = PolicyResponse.Traces po\<rparr>))
       \<and> (TLSDownstreamClientCA p = ''''
          \<longrightarrow> getClientCA d e (Some p) = Inr (clientCA e)
            \<and> filter is_validation_call (policy_calls (Evaluate d e first req)) =
                [Call_isValidClientCertificate (clientCA e) (clientCRL e)
                   (ClientCertificate (Request.HTTP req)) (clientCertConstraints e)]
            \<and> policy_unit d e req =
                (case isValidClientCertificate d (clientCA e) (clientCRL e)
                        (ClientCertificate (Request.HTTP req)) (clientCertConstraints e) of
                   Inl verr \<Rightarrow>
                     ([Call_isValidClientCertificate (clientCA e) (clientCRL e)
                         (ClientCertificate (Request.HTTP req)) (clientCertConstraints e)],
                      Inl (Errorf_w ''authorize: error validating client certificate: '' verr))
                 | Inr valid \<Rightarrow>
                     ([Call_isValidClientCertificate (clientCA e) (clientCRL e)
                         (ClientCertificate (Request.HTTP req)) (clientCertConstraints e),
                       Call_PolicyEvaluator_Evaluate rid
                         \<lparr>PolicyRequest.HTTP = Request.HTTP req,
                          Session = Request.Session req,
                          IsValidClientCertificate = valid\<rparr>],
                      pe \<lparr>PolicyRequest.HTTP = Request.HTTP req,
                          Session = Request.Session req,
                          IsValidClientCertificate = valid\<rparr>))
            \<and> returned (Evaluate d e first req) =
                (case errgroup_Wait first
                        (case isValidClientCertificate d (clientCA e) (clientCRL e)
                                (ClientCertificate (Request.HTTP req))
                                (clientCertConstraints e) of
                           Inl verr \<Rightarrow>
                             Inl (Errorf_w
                                    ''authorize: error validating client certificate: '' verr)
                         | Inr valid \<Rightarrow>
                             pe \<lparr>PolicyRequest.HTTP = Request.HTTP req,
                                 Session = Request.Session req,
                                 IsValidClientCertificate = valid\<rparr>)
                        (snd (evaluateHeaders d e req)) of
                   Inl err \<Rightarrow> Inl err
                 | Inr (po, ho) \<Rightarrow>
                     Inr \<lparr>Result.Allow = PolicyResponse.Allow po,
                          Deny = PolicyResponse.Deny po,
                          Headers = HeadersResponse.Headers ho,
                          Traces = PolicyResponse.Traces po\<rparr>))
       \<and> (TLSDownstreamClientCA p \<noteq> '''' \<and> DecodeString d (TLSDownstreamClientCA p) = Inl err
          \<longrightarrow> policy_unit d e req = ([], Inl err)
            \<and> returned (Evaluate d e first req) =
                Inl (case snd (evaluateHeaders d e req) of
                       Inl herr \<Rightarrow> (case first of PolicyUnit \<Rightarrow> err | HeadersUnit \<Rightarrow> herr)
                     | Inr ho \<Rightarrow> err))"
proof -
  note pu = policy_unit_registered [OF assms]
  have gen: "filter is_validation_call (policy_calls (Evaluate d e first req)) =
                [Call_isValidClientCertificate ca (clientCRL e)
                   (ClientCertificate (Request.HTTP req)) (clientCertConstraints e)]
            \<and> policy_unit d e req =
                (case isValidClientCertificate d ca (clientCRL e)
                        (ClientCertificate (Request.HTTP req)) (clientCertConstraints e) of
                   Inl verr \<Rightarrow>
                     ([Call_isValidClientCertificate ca (clientCRL e)
                         (ClientCertificate (Request.HTTP req)) (clientCertConstraints e)],
                      Inl (Errorf_w ''authorize: error validating client certificate: '' verr))
                 | Inr valid \<Rightarrow>
                     ([Call_isValidClientCertificate ca (clientCRL e)
                         (ClientCertificate (Request.HTTP req)) (clientCertConstraints e),
                       Call_PolicyEvaluator_Evaluate rid
                         \<lparr>PolicyRequest.HTTP = Request.HTTP req,
                          Session = Request.Session req,
                          IsValidClientCertificate = valid\<rparr>],
                      pe \<lparr>PolicyRequest.HTTP = Request.HTTP req,
                          Session = Request.Session req,
                          IsValidClientCertificate = valid\<rparr>))
            \<and> returned (Evaluate d e first req) =
                (case errgroup_Wait first
                        (case isValidClientCertificate d ca (clientCRL e)
                                (ClientCertificate (Request.HTTP req))
                                (clientCertConstraints e) of
                           Inl verr \<Rightarrow>
                             Inl (Errorf_w
                                    ''authorize: error validating client certificate: '' verr)
                         | Inr valid \<Rightarrow>
                             pe \<lparr>PolicyRequest.HTTP = Request.HTTP req,
                                 Session = Request.Session req,
                                 IsValidClientCertificate = valid\<rparr>)
                        (snd (evaluateHeaders d e req)) of
                   Inl err \<Rightarrow> Inl err
                 | Inr (po, ho) \<Rightarrow>
                     Inr \<lparr>Result.Allow = PolicyResponse.Allow po,
                          Deny = PolicyResponse.Deny po,
                          Headers = HeadersResponse.Headers ho,
                          Traces = PolicyResponse.Traces po\<rparr>)"
    if ca: "getClientCA d e (Some p) = Inr ca" for ca
  proof (cases "isValidClientCertificate d ca (clientCRL e)
                  (ClientCertificate (Request.HTTP req)) (clientCertConstraints e)")
    case (Inl verr)
    then show ?thesis
      by (simp add: pu ca Evaluate_policy_calls Evaluate_returned)
  next
    case (Inr valid)
    then show ?thesis
      by (simp add: pu ca Evaluate_policy_calls Evaluate_returned)
  qed
  have override: "getClientCA d e (Some p) = Inr bs"
    if "TLSDownstreamClientCA p \<noteq> '''' \<and> DecodeString d (TLSDownstreamClientCA p) = Inr bs"
    using that by (simp add: getClientCA_def)
  have global: "getClientCA d e (Some p) = Inr (clientCA e)"
    if "TLSDownstreamClientCA p = ''''"
    using that by (simp add: getClientCA_def)
  have undecodable: "policy_unit d e req = ([], Inl err)
            \<and> returned (Evaluate d e first req) =
                Inl (case snd (evaluateHeaders d e req) of
                       Inl herr \<Rightarrow> (case first of PolicyUnit \<Rightarrow> err | HeadersUnit \<Rightarrow> herr)
                     | Inr ho \<Rightarrow> err)"
    if "TLSDownstreamClientCA p \<noteq> '''' \<and> DecodeString d (TLSDownstreamClientCA p) = Inl err"
  proof -
    from that have "policy_unit d e req = ([], Inl err)"
      by (simp add: pu getClientCA_def)
    then show ?thesis
      by (simp add: Evaluate_returned errgroup_Wait_policy_error)
  qed
  show ?thesis
    using gen [OF override] gen [OF global] override global undecodable by blast
qed

theorem effective_client_ca_witness:
  "returned (Evaluate ex_deps_issuer (ex_evaluator [7 \<mapsto> ex_deny_invalid] ex_headers_ok)
      PolicyUnit
      (ex_request False (Some \<lparr>TLSDownstreamClientCA = ''Q0E=''\<rparr>) ''/'' ''s1'' Map.empty
         (ex_cert True ''issued-by:CA'')))
     = Inr \<lparr>Result.Allow = \<lparr>Value = True, Reasons = [ReasonOther ''accept'']\<rparr>,
            Deny = \<lparr>Value = False, Reasons = []\<rparr>,
            Headers = [''X-Pomerium-Jwt-Assertion'' \<mapsto> [''signed'']],
            Traces = []\<rparr>
   \<and> returned (Evaluate ex_deps_issuer (ex_evaluator [7 \<mapsto> ex_deny_invalid] ex_headers_ok)
      PolicyUnit
      (ex_request False (Some \<lparr>TLSDownstreamClientCA = ''Q0E=''\<rparr>) ''/'' ''s1'' Map.empty
         (ex_cert True ''issued-by:GLOBAL'')))
     = Inr \<lparr>Result.Allow = \<lparr>Value = False, Reasons = []\<rparr>,
            Deny = \<lparr>Value = True, Reasons = [ReasonInvalidClientCertificate]\<rparr>,
            Headers = [''X-Pomerium-Jwt-Assertion'' \<mapsto> [''signed'']],
            Traces = []\<rparr>
   \<and> returned (Evaluate ex_deps_issuer (ex_evaluator [7 \<mapsto> ex_deny_invalid] ex_headers_ok)
      PolicyUnit
      (ex_request False (Some \<lparr>TLSDownstreamClientCA = ''''\<rparr>) ''/'' ''s1'' Map.empty
         (ex_cert True ''issued-by:GLOBAL'')))
     = Inr \<lparr>Result.Allow = \<lparr>Value = True, Reasons = [ReasonOther ''accept'']\<rparr>,
            Deny = \<lparr>Value = False, Reasons = []\<rparr>,
            Headers = [''X-Pomerium-Jwt-Assertion'' \<mapsto> [''signed'']],
            Traces = []\<rparr>
   \<and> returned (Evaluate ex_deps_issuer (ex_evaluator [7 \<mapsto> ex_deny_invalid] ex_headers_ok)
      PolicyUnit
      (ex_request False (Some \<lparr>TLSDownstreamClientCA = ''''\<rparr>) ''/'' ''s1'' Map.empty
         (ex_cert True ''issued-by:CA'')))
     = Inr \<lparr>Result.Allow = \<lparr>Value = False, Reasons = []\<rparr>,
            Deny = \<lparr>Value = True, Reasons = [ReasonInvalidClientCertificate]\<rparr>,
            Headers = [''X-Pomerium-Jwt-Assertion'' \<mapsto> [''signed'']],
            Traces = []\<rparr>
   \<and> filter is_validation_call
        (policy_calls (Evaluate ex_deps_issuer
           (ex_evaluator [7 \<mapsto> ex_deny_invalid] ex_headers_ok) PolicyUnit
           (ex_request False (Some \<lparr>TLSDownstreamClientCA = ''Q0E=''\<rparr>) ''/'' ''s1'' Map.empty
              (ex_cert True ''issued-by:CA''))))
     = [Call_isValidClientCertificate ''CA'' [] (ex_cert True ''issued-by:CA'') ()]
   \<and> policy_unit ex_deps_issuer (ex_evaluator [7 \<mapsto> ex_deny_invalid] ex_headers_ok)
        (ex_request False (Some \<lparr>TLSDownstreamClientCA = ''not base64''\<rparr>) ''/'' ''s1''
           Map.empty (ex_cert True ''issued-by:GLOBAL''))
     = ([], Inl (ErrorString ''illegal base64 data''))"
proof -
  let ?e = "ex_evaluator [7 \<mapsto> ex_deny_invalid] ex_headers_ok"
  note t = effective_client_ca [where d = ex_deps_issuer and first = PolicyUnit and e = ?e
      and rid = 7 and pe = ex_deny_invalid and bs = "''CA''"
      and err = "ErrorString ''illegal base64 data''"]
  have a: "returned (Evaluate ex_deps_issuer ?e PolicyUnit
      (ex_request False (Some \<lparr>TLSDownstreamClientCA = ''Q0E=''\<rparr>) ''/'' ''s1'' Map.empty
         (ex_cert True ''issued-by:CA'')))
     = Inr \<lparr>Result.Allow = \<lparr>Value = True, Reasons = [ReasonOther ''accept'']\<rparr>,
            Deny = \<lparr>Value = False, Reasons = []\<rparr>,
            Headers = [''X-Pomerium-Jwt-Assertion'' \<mapsto> [''signed'']],
            Traces = []\<rparr>"
    and a': "filter is_validation_call
        (policy_calls (Evaluate ex_deps_issuer ?e PolicyUnit
           (ex_request False (Some \<lparr>TLSDownstreamClientCA = ''Q0E=''\<rparr>) ''/'' ''s1'' Map.empty
              (ex_cert True ''issued-by:CA''))))
     = [Call_isValidClientCertificate ''CA'' [] (ex_cert True ''issued-by:CA'') ()]"
    using t [where p = "\<lparr>TLSDownstreamClientCA = ''Q0E=''\<rparr>"
        and req = "ex_request False (Some \<lparr>TLSDownstreamClientCA = ''Q0E=''\<rparr>) ''/'' ''s1''
           Map.empty (ex_cert True ''issued-by:CA'')"]
    by (simp_all add: ex_defs evaluateHeaders_def carryOverJWTAssertion_def lookup_ok_def
        errgroup_Wait_def NewRuleResult_def RuleResult_unset_def)
  have b: "returned (Evaluate ex_deps_issuer ?e PolicyUnit
      (ex_request False (Some \<lparr>TLSDownstreamClientCA = ''Q0E=''\<rparr>) ''/'' ''s1'' Map.empty
         (ex_cert True ''issued-by:GLOBAL'')))
     = Inr \<lparr>Result.Allow = \<lparr>Value = False, Reasons = []\<rparr>,
            Deny = \<lparr>Value = True, Reasons = [ReasonInvalidClientCertificate]\<rparr>,
            Headers = [''X-Pomerium-Jwt-Assertion'' \<mapsto> [''signed'']],
            Traces = []\<rparr>"
    using t [where p = "\<lparr>TLSDownstreamClientCA = ''Q0E=''\<rparr>"
        and req = "ex_request False (Some \<lparr>TLSDownstreamClientCA = ''Q0E=''\<rparr>) ''/'' ''s1''
           Map.empty (ex_cert True ''issued-by:GLOBAL'')"]
    by (simp add: ex_defs evaluateHeaders_def carryOverJWTAssertion_def lookup_ok_def
        errgroup_Wait_def NewRuleResult_def RuleResult_unset_def)
  have c: "returned (Evaluate ex_deps_issuer ?e PolicyUnit
      (ex_request False (Some \<lparr>TLSDownstreamClientCA = ''''\<rparr>) ''/'' ''s1'' Map.empty
         (ex_cert True ''issued-by:GLOBAL'')))
     = Inr \<lparr>Result.Allow = \<lparr>Value = True, Reasons = [ReasonOther ''accept'']\<rparr>,
            Deny = \<lparr>Value = False, Reasons = []\<rparr>,
            Headers = [''X-Pomerium-Jwt-Assertion'' \<mapsto> [''signed'']],
            Traces = []\<rparr>"
    using t [where p = "\<lparr>TLSDownstreamClientCA = ''''\<rparr>"
        and req = "ex_request False (Some \<lparr>TLSDownstreamClientCA = ''''\<rparr>) ''/'' ''s1''
           Map.empty (ex_cert True ''issued-by:GLOBAL'')"]
    by (simp add: ex_defs evaluateHeaders_def carryOverJWTAssertion_def lookup_ok_def
        errgroup_Wait_def NewRuleResult_def RuleResult_unset_def)
  have c': "returned (Evaluate ex_deps_issuer ?e PolicyUnit
      (ex_request False (Some \<lparr>TLSDownstreamClientCA = ''''\<rparr>) ''/'' ''s1'' Map.empty
         (ex_cert True ''issued-by:CA'')))
     = Inr \<lparr>Result.Allow = \<lparr>Value = False, Reasons = []\<rparr>,
            Deny = \<lparr>Value = True, Reasons = [ReasonInvalidClientCertificate]\<rparr>,
            Headers = [''X-Pomerium-Jwt-Assertion'' \<mapsto> [''signed'']],
            Traces = []\<rparr>"
    using t [where p = "\<lparr>TLSDownstreamClientCA = ''''\<rparr>"
        and req = "ex_request False (Some \<lparr>TLSDownstreamClientCA = ''''\<rparr>) ''/'' ''s1''
           Map.empty (ex_cert True ''issued-by:CA'')"]
    by (simp add: ex_defs evaluateHeaders_def carryOverJWTAssertion_def lookup_ok_def
        errgroup_Wait_def NewRuleResult_def RuleResult_unset_def)
  have d: "policy_unit ex_deps_issuer ?e
        (ex_request False (Some \<lparr>TLSDownstreamClientCA = ''not base64''\<rparr>) ''/'' ''s1''
           Map.empty (ex_cert True ''issued-by:GLOBAL''))
     = ([], Inl (ErrorString ''illegal base64 data''))"
    using t [where p = "\<lparr>TLSDownstreamClientCA = ''not base64''\<rparr>"
        and req = "ex_request False (Some \<lparr>TLSDownstreamClientCA = ''not base64''\<rparr>) ''/''
           ''s1'' Map.empty (ex_cert True ''issued-by:GLOBAL'')"]
    by (simp add: ex_defs)
  from a a' b c c' d show ?thesis by simp
qed

subsection \<open>The headers unit runs for every request\<close>

text \<open>
  C9: for every request, internal or not, with or without a policy or a registered
  evaluator, Evaluate calls the headers evaluator exactly once, on the headers request
  built from the request's policy, HTTP facts and session; and whenever Evaluate returns
  a result, the headers evaluator has answered and the result's Headers are its headers
  after the carry-over pass. A Deny(RouteNotFound) result carries them like any other.
\<close>

theorem headers_unit_always_runs:
  "headers_calls (Evaluate d e first req) =
     [Call_HeadersEvaluator_Evaluate
        ((NewHeadersRequestFromPolicy d (Policy req) (Request.HTTP req))
           \<lparr>HeadersRequest.Session := Request.Session req\<rparr>)]
   \<and> (returned (Evaluate d e first req) = Inr res
      \<longrightarrow> snd (evaluateHeaders d e req) = Inr \<lparr>HeadersResponse.Headers = Result.Headers res\<rparr>
        \<and> (\<exists>ho. headersEvaluators e
                   ((NewHeadersRequestFromPolicy d (Policy req) (Request.HTTP req))
                      \<lparr>HeadersRequest.Session := Request.Session req\<rparr>) = Inr ho
                \<and> Result.Headers res =
                    carryOverJWTAssertion d (HeadersResponse.Headers ho)
                      (RequestHTTP.Headers (Request.HTTP req))))"
proof (intro conjI impI)
  show "headers_calls (Evaluate d e first req) =
     [Call_HeadersEvaluator_Evaluate
        ((NewHeadersRequestFromPolicy d (Policy req) (Request.HTTP req))
           \<lparr>HeadersRequest.Session := Request.Session req\<rparr>)]"
    by (simp add: Evaluate_headers_calls evaluateHeaders_calls)
next
  assume r: "returned (Evaluate d e first req) = Inr res"
  then obtain po ho' where
    w: "errgroup_Wait first (snd (policy_unit d e req)) (snd (evaluateHeaders d e req))
          = Inr (po, ho')"
    and h: "Result.Headers res = HeadersResponse.Headers ho'"
    by (auto simp: Evaluate_returned split: sum.splits prod.splits)
  from w have hu: "snd (evaluateHeaders d e req) = Inr ho'"
    by (auto simp: errgroup_Wait_def split: sum.splits)
  with h show "snd (evaluateHeaders d e req) =
      Inr \<lparr>HeadersResponse.Headers = Result.Headers res\<rparr>"
    by simp
  from hu h show "\<exists>ho. headersEvaluators e
                   ((NewHeadersRequestFromPolicy d (Policy req) (Request.HTTP req))
                      \<lparr>HeadersRequest.Session := Request.Session req\<rparr>) = Inr ho
                \<and> Result.Headers res =
                    carryOverJWTAssertion d (HeadersResponse.Headers ho)
                      (RequestHTTP.Headers (Request.HTTP req))"
    by (auto simp: evaluateHeaders_result split: sum.splits)
qed

theorem headers_unit_always_runs_witness:
  "returned (Evaluate ex_deps (ex_evaluator Map.empty ex_headers_ok) PolicyUnit
      (ex_request False None ''/'' ''s1'' [''X-Pomerium-Jwt-Assertion'' \<mapsto> ''B'']
         (ex_cert False [])))
     = Inr \<lparr>Result.Allow = \<lparr>Value = False, Reasons = []\<rparr>,
            Deny = \<lparr>Value = True, Reasons = [ReasonRouteNotFound]\<rparr>,
            Headers = [''X-Pomerium-Jwt-Assertion'' \<mapsto> [''signed''],
                       ''X-Pomerium-Jwt-Assertion-For'' \<mapsto> [''B'']],
            Traces = []\<rparr>
   \<and> headers_calls (Evaluate ex_deps (ex_evaluator Map.empty ex_headers_ok) PolicyUnit
      (ex_request False None ''/'' ''s1'' [''X-Pomerium-Jwt-Assertion'' \<mapsto> ''B'']
         (ex_cert False [])))
     = [Call_HeadersEvaluator_Evaluate \<lparr>HeadersRequest.Session = \<lparr>ID = ''s1''\<rparr>\<rparr>]
   \<and> snd (evaluateHeaders ex_deps (ex_evaluator Map.empty ex_headers_ok)
      (ex_request False None ''/'' ''s1'' [''X-Pomerium-Jwt-Assertion'' \<mapsto> ''B'']
         (ex_cert False [])))
     = Inr \<lparr>HeadersResponse.Headers =
              [''X-Pomerium-Jwt-Assertion'' \<mapsto> [''signed''],
               ''X-Pomerium-Jwt-Assertion-For'' \<mapsto> [''B'']]\<rparr>"
proof -
  let ?req = "ex_request False None ''/'' ''s1'' [''X-Pomerium-Jwt-Assertion'' \<mapsto> ''B'']
         (ex_cert False [])"
  let ?e = "ex_evaluator Map.empty ex_headers_ok"
  let ?res = "\<lparr>Result.Allow = \<lparr>Value = False, Reasons = []\<rparr>,
            Deny = \<lparr>Value = True, Reasons = [ReasonRouteNotFound]\<rparr>,
            Headers = [''X-Pomerium-Jwt-Assertion'' \<mapsto> [''signed''],
                       ''X-Pomerium-Jwt-Assertion-For'' \<mapsto> [''B'']],
            Traces = [] :: string list\<rparr>"
  have r: "returned (Evaluate ex_deps ?e PolicyUnit ?req) = Inr ?res"
    by (simp add: Evaluate_returned ex_defs unit_defs)
  have c: "headers_calls (Evaluate ex_deps ?e PolicyUnit ?req)
      = [Call_HeadersEvaluator_Evaluate \<lparr>HeadersRequest.Session = \<lparr>ID = ''s1''\<rparr>\<rparr>]"
    using headers_unit_always_runs [where d = ex_deps and e = ?e and first = PolicyUnit
        and req = ?req and res = ?res]
    by (simp add: ex_defs)
  have h: "snd (evaluateHeaders ex_deps ?e ?req)
     = Inr \<lparr>HeadersResponse.Headers =
              [''X-Pomerium-Jwt-Assertion'' \<mapsto> [''signed''],
               ''X-Pomerium-Jwt-Assertion-For'' \<mapsto> [''B'']]\<rparr>"
    using r headers_unit_always_runs [where d = ex_deps and e = ?e and first = PolicyUnit
        and req = ?req and res = ?res]
    by simp
  from r c h show ?thesis by simp
qed

subsection \<open>A route id that cannot be computed\<close>

text \<open>
  C10: for every non-internal request whose policy is present and whose route id
  computation fails, Evaluate returns an error and no result (so no Deny(RouteNotFound)
  decision): the policy unit makes no call and fails with the route id error wrapped as
  "authorize: error computing policy route id", and Evaluate returns that error, or the
  error of the headers unit when that unit failed first.
\<close>

theorem route_id_failure_is_error:
  assumes "\<not> IsInternal req" and "Policy req = Some p" and "RouteID d p = Inl err"
  shows "policy_unit d e req =
           ([], Inl (Errorf_w ''authorize: error computing policy route id: '' err))
    \<and> (\<exists>err'. returned (Evaluate d e first req) = Inl err')
    \<and> returned (Evaluate d e first req) =
        Inl (case snd (evaluateHeaders d e req) of
               Inl herr \<Rightarrow>
                 (case first of
                    PolicyUnit \<Rightarrow> Errorf_w ''authorize: error computing policy route id: '' err
                  | HeadersUnit \<Rightarrow> herr)
             | Inr ho \<Rightarrow> Errorf_w ''authorize: error computing policy route id: '' err)"
proof -
  note pu = policy_unit_route_id_error [OF assms, of e]
  have r: "returned (Evaluate d e first req) =
        Inl (case snd (evaluateHeaders d e req) of
               Inl herr \<Rightarrow>
                 (case first of
                    PolicyUnit \<Rightarrow> Errorf_w ''authorize: error computing policy route id: '' err
                  | HeadersUnit \<Rightarrow> herr)
             | Inr ho \<Rightarrow> Errorf_w ''authorize: error computing policy route id: '' err)"
    by (simp add: Evaluate_returned pu errgroup_Wait_policy_error)
  from pu r show ?thesis by simp
qed

theorem route_id_failure_is_error_witness:
  "\<not> IsInternal (ex_request False (Some \<lparr>TLSDownstreamClientCA = ''''\<rparr>) ''/'' ''s1'' Map.empty
        (ex_cert True ''leaf''))
   \<and> RouteID ex_deps_no_route_id \<lparr>TLSDownstreamClientCA = ''''\<rparr> = Inl (ErrorString ''hash failed'')
   \<and> returned (Evaluate ex_deps_no_route_id (ex_evaluator [7 \<mapsto> ex_allow_all] ex_headers_ok)
        HeadersUnit
        (ex_request False (Some \<lparr>TLSDownstreamClientCA = ''''\<rparr>) ''/'' ''s1'' Map.empty
           (ex_cert True ''leaf'')))
     = Inl (Errorf_w ''authorize: error computing policy route id: ''
              (ErrorString ''hash failed''))
   \<and> returned (Evaluate ex_deps_no_route_id (ex_evaluator [7 \<mapsto> ex_allow_all] ex_headers_fail)
        HeadersUnit
        (ex_request False (Some \<lparr>TLSDownstreamClientCA = ''''\<rparr>) ''/'' ''s1'' Map.empty
           (ex_cert True ''leaf'')))
     = Inl (ErrorString ''headers: eval fault'')"
  using
    route_id_failure_is_error [where d = ex_deps_no_route_id and first = HeadersUnit
      and e = "ex_evaluator [7 \<mapsto> ex_allow_all] ex_headers_ok"
      and p = "\<lparr>TLSDownstreamClientCA = ''''\<rparr>" and err = "ErrorString ''hash failed''"
      and req = "ex_request False (Some \<lparr>TLSDownstreamClientCA = ''''\<rparr>) ''/'' ''s1'' Map.empty
           (ex_cert True ''leaf'')"]
    route_id_failure_is_error [where d = ex_deps_no_route_id and first = HeadersUnit
      and e = "ex_evaluator [7 \<mapsto> ex_allow_all] ex_headers_fail"
      and p = "\<lparr>TLSDownstreamClientCA = ''''\<rparr>" and err = "ErrorString ''hash failed''"
      and req = "ex_request False (Some \<lparr>TLSDownstreamClientCA = ''''\<rparr>) ''/'' ''s1'' Map.empty
           (ex_cert True ''leaf'')"]
  by (simp add: ex_defs evaluateHeaders_def carryOverJWTAssertion_def lookup_ok_def)


end
